theory Spec2Isabelle
  imports Main "HOL-Library.Sublist"
begin

unbundle bit_operations_syntax

text \<open>
  A shallow embedding of \<^verbatim>\<open>frontdoor_ipgroup_updater/main.py\<close>: a job that obtains a token
  for the Azure management API, fetches the address prefixes published for Azure Front
  Door, splits them into IPv4 and IPv6 networks and, when enough IPv4 networks were found,
  writes them into an IP group.

  Exceptions are values (\<open>Inl\<close> of a sum), \<^verbatim>\<open>exit\<close> is the exception \<open>SystemExit\<close>. What
  a run does to the outside is a trace of events. What the outside answers (the identity
  provider, the web servers, the HTML and JSON parsers) is a parameter, the record
  \<open>world\<close>. The one library function the program's decisions rest on,
  \<^verbatim>\<open>ipaddress.ip_network\<close>, is modelled in full for the values JSON can hold.
\<close>

section \<open>Python values\<close>

text \<open>
  The values \<^verbatim>\<open>json.loads\<close> produces and \<^verbatim>\<open>requests\<close> serialises: \<^verbatim>\<open>None\<close>,
  \<^verbatim>\<open>bool\<close>, \<^verbatim>\<open>int\<close> (unbounded), \<^verbatim>\<open>str\<close>, \<^verbatim>\<open>list\<close> and \<^verbatim>\<open>dict\<close> with string keys.
  A dict is an association list read with \<open>map_of\<close>; its keys are distinct in Python.
  JSON numbers with a fraction or an exponent (Python floats) are left out: the program
  never computes with a number, it only passes values through.
\<close>

datatype json =
    JNull
  | JBool bool
  | JInt int
  | JStr string
  | JArr "json list"
  | JObj "(string \<times> json) list"

text \<open>
  The exceptions the program meets. \<open>SystemExit\<close> derives from \<^verbatim>\<open>BaseException\<close>
  only, so \<^verbatim>\<open>except Exception\<close> lets it pass; all others derive from
  \<^verbatim>\<open>Exception\<close>. \<open>ConnectionError\<close>, \<open>HTTPError\<close> and \<open>JSONDecodeError\<close> are raised
  by the transport and parsing libraries.
\<close>

datatype exn =
    SystemExit int
  | ValueError
  | KeyError string
  | TypeError
  | AttributeError
  | StopIteration
  | JSONDecodeError
  | ConnectionError
  | HTTPError nat

fun is_Exception :: "exn \<Rightarrow> bool" where
  "is_Exception (SystemExit _) = False"
| "is_Exception _ = True"

section \<open>The standard library's \<^verbatim>\<open>ipaddress.ip_network\<close>\<close>

text \<open>
  \<^verbatim>\<open>_filter_ip_versions\<close> decides by the class of the object \<^verbatim>\<open>ip_network\<close> returns, so
  the factory is modelled after CPython 3.11's \<^verbatim>\<open>Lib/ipaddress.py\<close>, function by
  function, as far as it decides between returning and raising. Messages of exceptions
  are dropped; their classes are kept, because \<^verbatim>\<open>ip_network\<close> catches
  \<^verbatim>\<open>AddressValueError\<close> and \<^verbatim>\<open>NetmaskValueError\<close> but not a plain \<^verbatim>\<open>ValueError\<close>.
\<close>

datatype ip_error = AddressValueError | NetmaskValueError | PlainValueError

text \<open>
  What \<^verbatim>\<open>type(x)\<close> can be compared with: the two network classes, and one value for
  every other class.
\<close>

datatype py_class = IPv4Network | IPv6Network | OtherClass

text \<open>\<^verbatim>\<open>str.split(sep)\<close> for a one-character separator.\<close>

fun split_on :: "char \<Rightarrow> string \<Rightarrow> string list" where
  "split_on sep [] = [[]]"
| "split_on sep (c # cs) =
     (if c = sep then [] # split_on sep cs
      else (case split_on sep cs of
              [] \<Rightarrow> [[c]]
            | p # ps \<Rightarrow> (c # p) # ps))"

text \<open>\<^verbatim>\<open>s.isascii() and s.isdigit()\<close>: non-empty, decimal digits only.\<close>

definition is_ascii_digits :: "string \<Rightarrow> bool" where
  "is_ascii_digits s = (s \<noteq> [] \<and> list_all (\<lambda>c. c \<in> set ''0123456789'') s)"

definition digit_val :: "char \<Rightarrow> int" where
  "digit_val c = int (of_char c) - 48"

text \<open>\<^verbatim>\<open>int(s, 10)\<close> on a string of decimal digits.\<close>

definition int_of_digits :: "string \<Rightarrow> int" where
  "int_of_digits s = foldl (\<lambda>n c. 10 * n + digit_val c) 0 s"

definition HEX_DIGITS :: "char set" where
  "HEX_DIGITS = set ''0123456789ABCDEFabcdef''"

definition hex_val :: "char \<Rightarrow> int" where
  "hex_val c =
     (if c \<in> set ''0123456789'' then int (of_char c) - 48
      else if c \<in> set ''abcdef'' then int (of_char c) - 87
      else int (of_char c) - 55)"

text \<open>\<^verbatim>\<open>int(s, 16)\<close> on a non-empty string of hex digits.\<close>

definition int_of_hex :: "string \<Rightarrow> int" where
  "int_of_hex s = foldl (\<lambda>n c. 16 * n + hex_val c) 0 s"

text \<open>\<^verbatim>\<open>_count_righthand_zero_bits(number, bits)\<close>, counting instead of the bit trick.\<close>

fun count_righthand_zero_bits :: "int \<Rightarrow> nat \<Rightarrow> nat" where
  "count_righthand_zero_bits number 0 = 0"
| "count_righthand_zero_bits number (Suc bits) =
     (if number = 0 then Suc bits
      else if odd number then 0
      else Suc (count_righthand_zero_bits (number div 2) bits))"

text \<open>The class constants \<^verbatim>\<open>_max_prefixlen\<close> and \<^verbatim>\<open>_ALL_ONES\<close>, by address length.\<close>

definition ALL_ONES :: "nat \<Rightarrow> int" where
  "ALL_ONES max_prefixlen = 2 ^ max_prefixlen - 1"

definition ip_int_from_prefix :: "nat \<Rightarrow> nat \<Rightarrow> int" where
  "ip_int_from_prefix max_prefixlen prefixlen =
     ALL_ONES max_prefixlen XOR (drop_bit prefixlen (ALL_ONES max_prefixlen))"

definition prefix_from_ip_int :: "nat \<Rightarrow> int \<Rightarrow> ip_error + nat" where
  "prefix_from_ip_int max_prefixlen ip_int =
     (let trailing_zeroes = count_righthand_zero_bits ip_int max_prefixlen;
          prefixlen = max_prefixlen - trailing_zeroes;
          leading_ones = drop_bit trailing_zeroes ip_int;
          all_ones = push_bit prefixlen 1 - 1
      in if leading_ones \<noteq> all_ones then Inl PlainValueError else Inr prefixlen)"

definition prefix_from_prefix_string :: "nat \<Rightarrow> string \<Rightarrow> ip_error + nat" where
  "prefix_from_prefix_string max_prefixlen prefixlen_str =
     (if \<not> is_ascii_digits prefixlen_str then Inl NetmaskValueError
      else let prefixlen = int_of_digits prefixlen_str
           in if \<not> (0 \<le> prefixlen \<and> prefixlen \<le> int max_prefixlen) then Inl NetmaskValueError
              else Inr (nat prefixlen))"

subsection \<open>IPv4\<close>

definition parse_octet :: "string \<Rightarrow> ip_error + int" where
  "parse_octet octet_str =
     (if octet_str = [] then Inl PlainValueError
      else if \<not> is_ascii_digits octet_str then Inl PlainValueError
      else if length octet_str > 3 then Inl PlainValueError
      else if octet_str \<noteq> ''0'' \<and> hd octet_str = CHR ''0'' then Inl PlainValueError
      else let octet_int = int_of_digits octet_str
           in if octet_int > 255 then Inl PlainValueError else Inr octet_int)"

text \<open>
  \<^verbatim>\<open>int.from_bytes(map(cls._parse_octet, octets), 'big')\<close>: the octets are parsed left
  to right, the first failure ends the parse.
\<close>

fun from_octets :: "int \<Rightarrow> string list \<Rightarrow> ip_error + int" where
  "from_octets acc [] = Inr acc"
| "from_octets acc (s # ss) =
     (case parse_octet s of
        Inl e \<Rightarrow> Inl e
      | Inr v \<Rightarrow> from_octets (256 * acc + v) ss)"

definition v4_ip_int_from_string :: "string \<Rightarrow> ip_error + int" where
  "v4_ip_int_from_string ip_str =
     (if ip_str = [] then Inl AddressValueError
      else let octets = split_on CHR ''.'' ip_str
           in if length octets \<noteq> 4 then Inl AddressValueError
              else (case from_octets 0 octets of
                      Inl _ \<Rightarrow> Inl AddressValueError
                    | Inr v \<Rightarrow> Inr v))"

text \<open>\<^verbatim>\<open>IPv4Address(address)\<close> for a string.\<close>

definition IPv4Address :: "string \<Rightarrow> ip_error + int" where
  "IPv4Address addr_str =
     (if CHR ''/'' \<in> set addr_str then Inl AddressValueError
      else v4_ip_int_from_string addr_str)"

definition prefix_from_ip_string :: "string \<Rightarrow> ip_error + nat" where
  "prefix_from_ip_string ip_str =
     (case v4_ip_int_from_string ip_str of
        Inl _ \<Rightarrow> Inl NetmaskValueError
      | Inr ip_int \<Rightarrow>
          (case prefix_from_ip_int 32 ip_int of
             Inr p \<Rightarrow> Inr p
           | Inl _ \<Rightarrow>
               (case prefix_from_ip_int 32 (ip_int XOR ALL_ONES 32) of
                  Inr p \<Rightarrow> Inr p
                | Inl _ \<Rightarrow> Inl NetmaskValueError)))"

text \<open>The mask as \<^verbatim>\<open>_split_addr_prefix\<close> hands it on: absent, or the text after the slash.\<close>

definition v4_make_netmask :: "string option \<Rightarrow> ip_error + int \<times> nat" where
  "v4_make_netmask arg =
     (case (case arg of
              None \<Rightarrow> Inr 32
            | Some s \<Rightarrow>
                (case prefix_from_prefix_string 32 s of
                   Inr p \<Rightarrow> Inr p
                 | Inl _ \<Rightarrow> prefix_from_ip_string s)) of
        Inl e \<Rightarrow> Inl e
      | Inr prefixlen \<Rightarrow> Inr (ip_int_from_prefix 32 prefixlen, prefixlen))"

text \<open>
  \<^verbatim>\<open>_split_addr_prefix\<close> on a string, through \<^verbatim>\<open>_split_optional_netmask\<close>: at most one
  slash.
\<close>

definition split_addr_prefix :: "string \<Rightarrow> ip_error + string \<times> string option" where
  "split_addr_prefix address =
     (case split_on CHR ''/'' address of
        [a] \<Rightarrow> Inr (a, None)
      | [a, m] \<Rightarrow> Inr (a, Some m)
      | _ \<Rightarrow> Inl AddressValueError)"

text \<open>\<^verbatim>\<open>IPv4Network(address, strict=True)\<close> for a string: returns or raises.\<close>

definition IPv4Network_init :: "string \<Rightarrow> ip_error + unit" where
  "IPv4Network_init address =
     (case split_addr_prefix address of
        Inl e \<Rightarrow> Inl e
      | Inr (addr, mask_arg) \<Rightarrow>
          (case IPv4Address addr of
             Inl e \<Rightarrow> Inl e
           | Inr packed \<Rightarrow>
               (case v4_make_netmask mask_arg of
                  Inl e \<Rightarrow> Inl e
                | Inr (netmask, prefixlen) \<Rightarrow>
                    if packed AND netmask \<noteq> packed then Inl PlainValueError
                    else Inr ())))"

subsection \<open>IPv6\<close>

definition parse_hextet :: "string \<Rightarrow> ip_error + int" where
  "parse_hextet hextet_str =
     (if \<not> set hextet_str \<subseteq> HEX_DIGITS then Inl PlainValueError
      else if length hextet_str > 4 then Inl PlainValueError
      else if hextet_str = [] then Inl PlainValueError
      else Inr (int_of_hex hextet_str))"

text \<open>\<^verbatim>\<open>'%x' % n\<close> for \<open>0 \<le> n\<close>.\<close>

definition hex_char :: "nat \<Rightarrow> char" where
  "hex_char d = ''0123456789abcdef'' ! d"

fun format_hex :: "nat \<Rightarrow> string" where
  "format_hex n = (if n < 16 then [hex_char n] else format_hex (n div 16) @ [hex_char (n mod 16)])"

text \<open>
  The loop \<^verbatim>\<open>for i in range(1, len(parts) - 1)\<close> that looks for the one empty part of
  a \<^verbatim>\<open>::\<close>.
\<close>

fun find_skip_index :: "string list \<Rightarrow> nat list \<Rightarrow> nat option \<Rightarrow> ip_error + nat option" where
  "find_skip_index parts [] skip_index = Inr skip_index"
| "find_skip_index parts (i # rest) skip_index =
     (if parts ! i = [] then
        (if skip_index \<noteq> None then Inl AddressValueError
         else find_skip_index parts rest (Some i))
      else find_skip_index parts rest skip_index)"

text \<open>The loops \<^verbatim>\<open>ip_int <<= 16; ip_int |= cls._parse_hextet(parts[i])\<close>.\<close>

fun parse_hextets :: "int \<Rightarrow> string list \<Rightarrow> ip_error + int" where
  "parse_hextets ip_int [] = Inr ip_int"
| "parse_hextets ip_int (p # ps) =
     (case parse_hextet p of
        Inl e \<Rightarrow> Inl e
      | Inr v \<Rightarrow> parse_hextets (push_bit 16 ip_int OR v) ps)"

text \<open>The parts after an IPv4-style suffix has been rewritten as two hextets.\<close>

definition convert_v4_suffix :: "string list \<Rightarrow> ip_error + string list" where
  "convert_v4_suffix parts =
     (if CHR ''.'' \<in> set (last parts) then
        (case IPv4Address (last parts) of
           Inl _ \<Rightarrow> Inl AddressValueError
         | Inr ipv4_int \<Rightarrow>
             Inr (butlast parts
                  @ [format_hex (nat (drop_bit 16 ipv4_int AND 0xFFFF)),
                     format_hex (nat (ipv4_int AND 0xFFFF))]))
      else Inr parts)"

text \<open>
  How many parts stand before and after the \<^verbatim>\<open>::\<close> and how many hextets it skips:
  \<open>(parts_hi, parts_lo, parts_skipped)\<close>.
\<close>

definition count_parts :: "string list \<Rightarrow> nat option \<Rightarrow> ip_error + nat \<times> nat \<times> nat" where
  "count_parts parts skip_index =
     (case skip_index of
        Some i \<Rightarrow>
          (let parts_hi = i;
               parts_lo = length parts - i - 1;
               lead = (hd parts = []);
               parts_hi' = (if lead then parts_hi - 1 else parts_hi)
           in if lead \<and> parts_hi' \<noteq> 0 then Inl AddressValueError
              else let trail = (last parts = []);
                       parts_lo' = (if trail then parts_lo - 1 else parts_lo)
                   in if trail \<and> parts_lo' \<noteq> 0 then Inl AddressValueError
                      else if 8 - (int parts_hi' + int parts_lo') < 1 then Inl AddressValueError
                      else Inr (parts_hi', parts_lo', 8 - (parts_hi' + parts_lo')))
      | None \<Rightarrow>
          (if length parts \<noteq> 8 then Inl AddressValueError
           else if hd parts = [] then Inl AddressValueError
           else if last parts = [] then Inl AddressValueError
           else Inr (length parts, 0, 0)))"

definition v6_ip_int_from_string :: "string \<Rightarrow> ip_error + int" where
  "v6_ip_int_from_string ip_str =
     (if ip_str = [] then Inl AddressValueError
      else let parts0 = split_on CHR '':'' ip_str
           in if length parts0 < 3 then Inl AddressValueError
              else (case convert_v4_suffix parts0 of
                      Inl e \<Rightarrow> Inl e
                    | Inr parts \<Rightarrow>
                        if length parts > 9 then Inl AddressValueError
                        else (case find_skip_index parts [1 ..< length parts - 1] None of
                                Inl e \<Rightarrow> Inl e
                              | Inr skip_index \<Rightarrow>
                                  (case count_parts parts skip_index of
                                     Inl e \<Rightarrow> Inl e
                                   | Inr (parts_hi, parts_lo, parts_skipped) \<Rightarrow>
                                       (case parse_hextets 0 (take parts_hi parts) of
                                          Inl _ \<Rightarrow> Inl AddressValueError
                                        | Inr hi \<Rightarrow>
                                            (case parse_hextets (push_bit (16 * parts_skipped) hi)
                                                    (drop (length parts - parts_lo) parts) of
                                               Inl _ \<Rightarrow> Inl AddressValueError
                                             | Inr ip_int \<Rightarrow> Inr ip_int))))))"

text \<open>\<^verbatim>\<open>_split_scope_id\<close>: \<^verbatim>\<open>ip_str.partition('%')\<close>; the scope id itself is not kept.\<close>

definition split_scope_id :: "string \<Rightarrow> ip_error + string" where
  "split_scope_id ip_str =
     (let addr = takeWhile (\<lambda>c. c \<noteq> CHR ''%'') ip_str;
          rest = dropWhile (\<lambda>c. c \<noteq> CHR ''%'') ip_str
      in if rest = [] then Inr addr
         else if tl rest = [] \<or> CHR ''%'' \<in> set (tl rest) then Inl AddressValueError
         else Inr addr)"

text \<open>\<^verbatim>\<open>IPv6Address(address)\<close> for a string.\<close>

definition IPv6Address :: "string \<Rightarrow> ip_error + int" where
  "IPv6Address addr_str =
     (if CHR ''/'' \<in> set addr_str then Inl AddressValueError
      else (case split_scope_id addr_str of
              Inl e \<Rightarrow> Inl e
            | Inr a \<Rightarrow> v6_ip_int_from_string a))"

definition v6_make_netmask :: "string option \<Rightarrow> ip_error + int \<times> nat" where
  "v6_make_netmask arg =
     (case (case arg of
              None \<Rightarrow> Inr 128
            | Some s \<Rightarrow> prefix_from_prefix_string 128 s) of
        Inl e \<Rightarrow> Inl e
      | Inr prefixlen \<Rightarrow> Inr (ip_int_from_prefix 128 prefixlen, prefixlen))"

text \<open>\<^verbatim>\<open>IPv6Network(address, strict=True)\<close> for a string: returns or raises.\<close>

definition IPv6Network_init :: "string \<Rightarrow> ip_error + unit" where
  "IPv6Network_init address =
     (case split_addr_prefix address of
        Inl e \<Rightarrow> Inl e
      | Inr (addr, mask_arg) \<Rightarrow>
          (case IPv6Address addr of
             Inl e \<Rightarrow> Inl e
           | Inr packed \<Rightarrow>
               (case v6_make_netmask mask_arg of
                  Inl e \<Rightarrow> Inl e
                | Inr (netmask, prefixlen) \<Rightarrow>
                    if packed AND netmask \<noteq> packed then Inl PlainValueError
                    else Inr ())))"

subsection \<open>The factory\<close>

text \<open>
  \<^verbatim>\<open>_check_int_address\<close>: an \<^verbatim>\<open>int\<close> (a \<^verbatim>\<open>bool\<close> is one) is taken as the packed
  address, with the full prefix length, so no host bit is set.
\<close>

definition check_int_address :: "nat \<Rightarrow> int \<Rightarrow> ip_error + unit" where
  "check_int_address max_prefixlen address =
     (if address < 0 then Inl AddressValueError
      else if address > ALL_ONES max_prefixlen then Inl AddressValueError
      else Inr ())"

text \<open>
  Any other object is read through \<^verbatim>\<open>str(address)\<close>. That text is \<^verbatim>\<open>None\<close> for
  \<^verbatim>\<open>None\<close>, and starts with a bracket for a list and with a brace for a dict; in none
  of the three does a first octet or a first hextet parse, so both constructors raise
  \<^verbatim>\<open>AddressValueError\<close>.
\<close>

fun new_network :: "nat \<Rightarrow> (string \<Rightarrow> ip_error + unit) \<Rightarrow> json \<Rightarrow> ip_error + unit" where
  "new_network max_prefixlen init (JInt n) = check_int_address max_prefixlen n"
| "new_network max_prefixlen init (JBool b) = check_int_address max_prefixlen (if b then 1 else 0)"
| "new_network max_prefixlen init (JStr s) = init s"
| "new_network max_prefixlen init JNull = init ''None''"
| "new_network max_prefixlen init (JArr _) = Inl AddressValueError"
| "new_network max_prefixlen init (JObj _) = Inl AddressValueError"

text \<open>
  \<^verbatim>\<open>ip_network(address)\<close>: the IPv4 constructor first, then the IPv6 one; an
  \<^verbatim>\<open>AddressValueError\<close> or \<^verbatim>\<open>NetmaskValueError\<close> of either is swallowed, a plain
  \<^verbatim>\<open>ValueError\<close> (host bits set) propagates, and when neither constructor returns a
  \<^verbatim>\<open>ValueError\<close> is raised. The result is the class of the object returned: the
  function has these two \<^verbatim>\<open>return\<close> statements and no other.
\<close>

definition ip_network :: "json \<Rightarrow> exn + py_class" where
  "ip_network address =
     (case new_network 32 IPv4Network_init address of
        Inr _ \<Rightarrow> Inr IPv4Network
      | Inl PlainValueError \<Rightarrow> Inl ValueError
      | Inl _ \<Rightarrow>
          (case new_network 128 IPv6Network_init address of
             Inr _ \<Rightarrow> Inr IPv6Network
           | Inl PlainValueError \<Rightarrow> Inl ValueError
           | Inl _ \<Rightarrow> Inl ValueError))"

section \<open>Effects\<close>

text \<open>
  What a run does to the outside: a log line (\<^verbatim>\<open>log.warning(msg, extra=..., exc_info=...)\<close>),
  the token request, an HTTP GET, an HTTP PUT with its JSON body.
\<close>

type_synonym headers = "(string \<times> string) list"

datatype event =
    LogWarning string "(string \<times> json) list" "exn option"
  | AcquireToken string string string "string list"
  | HttpGet string headers
  | HttpPut string headers json

text \<open>
  A computation yields the events it caused, in order, and either the exception it
  raised or its value.
\<close>

type_synonym 'a io = "event list \<times> (exn + 'a)"

definition ret :: "'a \<Rightarrow> 'a io" where
  "ret x = ([], Inr x)"

definition raise :: "exn \<Rightarrow> 'a io" where
  "raise e = ([], Inl e)"

text \<open>A pure step that may raise.\<close>

definition lift :: "exn + 'a \<Rightarrow> 'a io" where
  "lift r = ([], r)"

text \<open>A call that leaves the process: the event, then what the outside answered.\<close>

definition call :: "event \<Rightarrow> exn + 'a \<Rightarrow> 'a io" where
  "call ev r = ([ev], r)"

definition after :: "event list \<Rightarrow> 'a io \<Rightarrow> 'a io" where
  "after es m = (es @ fst m, snd m)"

definition bind :: "'a io \<Rightarrow> ('a \<Rightarrow> 'b io) \<Rightarrow> 'b io" where
  "bind m f =
     (case snd m of
        Inl e \<Rightarrow> (fst m, Inl e)
      | Inr x \<Rightarrow> after (fst m) (f x))"

text \<open>\<^verbatim>\<open>try: m except Exception as e: handler(e)\<close>.\<close>

definition try_except :: "'a io \<Rightarrow> (exn \<Rightarrow> 'a io) \<Rightarrow> 'a io" where
  "try_except m handler =
     (case snd m of
        Inl e \<Rightarrow> if is_Exception e then after (fst m) (handler e) else m
      | Inr x \<Rightarrow> m)"

definition log_warning :: "string \<Rightarrow> (string \<times> json) list \<Rightarrow> exn option \<Rightarrow> unit io" where
  "log_warning msg extra exc_info = call (LogWarning msg extra exc_info) (Inr ())"

text \<open>\<^verbatim>\<open>sys.exit(n)\<close>.\<close>

definition exit :: "int \<Rightarrow> 'a io" where
  "exit n = raise (SystemExit n)"

text \<open>
  The status the process ends with: 0 when \<^verbatim>\<open>main\<close> returns, the argument of
  \<^verbatim>\<open>exit\<close>, and 1 after the traceback of an uncaught exception.
\<close>

fun exit_status :: "unit io \<Rightarrow> int" where
  "exit_status (es, Inr _) = 0"
| "exit_status (es, Inl (SystemExit n)) = n"
| "exit_status (es, Inl _) = 1"

subsection \<open>Operations on values\<close>

text \<open>\<^verbatim>\<open>d[k]\<close> on a dict with string keys.\<close>

definition dict_get :: "(string \<times> 'v) list \<Rightarrow> string \<Rightarrow> exn + 'v" where
  "dict_get d k = (case map_of d k of None \<Rightarrow> Inl (KeyError k) | Some v \<Rightarrow> Inr v)"

text \<open>
  \<^verbatim>\<open>x[k]\<close> with a string \<open>k\<close> on a decoded JSON value: only a dict takes a string
  subscript.
\<close>

fun subscript :: "json \<Rightarrow> string \<Rightarrow> exn + json" where
  "subscript (JObj d) k = dict_get d k"
| "subscript _ k = Inl TypeError"

text \<open>
  The elements \<^verbatim>\<open>for x in v\<close> and \<^verbatim>\<open>list(v)\<close> run through: those of a list, the
  characters of a string, the keys of a dict.
\<close>

fun py_iter :: "json \<Rightarrow> exn + json list" where
  "py_iter (JArr xs) = Inr xs"
| "py_iter (JStr s) = Inr (map (\<lambda>c. JStr [c]) s)"
| "py_iter (JObj d) = Inr (map (\<lambda>kv. JStr (fst kv)) d)"
| "py_iter _ = Inl TypeError"

text \<open>\<^verbatim>\<open>str(n)\<close> for an \<^verbatim>\<open>int\<close>, as an f-string prints it.\<close>

fun str_nat :: "nat \<Rightarrow> string" where
  "str_nat n =
     (if n < 10 then [''0123456789'' ! n]
      else str_nat (n div 10) @ [''0123456789'' ! (n mod 10)])"

definition str_int :: "int \<Rightarrow> string" where
  "str_int i = (if i < 0 then CHR ''-'' # str_nat (nat (- i)) else str_nat (nat i))"

section \<open>The outside world\<close>

text \<open>
  \<^verbatim>\<open>frontdoor_ipgroup_updater.settings\<close> is not among the sources; its fields are taken
  as the program reads them.
\<close>

record settings =
  tenant_id :: string
  application_id :: string
  application_secret :: string
  subscription_id :: string
  resource_group_name :: string
  ip_group_name :: string
  minimum_acceptable_v4_networks :: int

record response =
  status_code :: nat
  content :: string

text \<open>
  What the libraries answer, each call by its arguments:
  \<^item> \<open>acquire_token_for_client\<close>: client id, credential, authority, scopes; the result
    dict of \<^verbatim>\<open>msal\<close>, of which the program reads only string entries;
  \<^item> \<open>requests_get\<close>, \<open>requests_put\<close>: the response, or the exception raised;
  \<^item> \<open>soup_find\<close>: the attributes of the first anchor with
    \<^verbatim>\<open>data-bi-id="downloadretry"\<close> in a document, \<open>None\<close> when there is none;
  \<^item> \<open>json_loads\<close>: the decoded document, or the exception raised.
\<close>

record world =
  acquire_token_for_client :: "string \<Rightarrow> string \<Rightarrow> string \<Rightarrow> string list \<Rightarrow> exn + (string \<times> string) list"
  requests_get :: "string \<Rightarrow> headers \<Rightarrow> exn + response"
  requests_put :: "string \<Rightarrow> headers \<Rightarrow> json \<Rightarrow> exn + response"
  soup_find :: "string \<Rightarrow> (string \<times> string) list option"
  json_loads :: "string \<Rightarrow> exn + json"

text \<open>\<^verbatim>\<open>Response.raise_for_status()\<close>: a 4xx or 5xx status raises.\<close>

definition raise_for_status :: "response \<Rightarrow> unit io" where
  "raise_for_status resp =
     (if 400 \<le> status_code resp \<and> status_code resp < 600 then raise (HTTPError (status_code resp))
      else ret ())"

section \<open>The program\<close>

text \<open>
  The functions of \<^verbatim>\<open>main.py\<close>, under their names without the leading underscore.
\<close>

subsection \<open>\<^verbatim>\<open>_get_auth_token\<close>\<close>

definition get_auth_token :: "settings \<Rightarrow> world \<Rightarrow> string io" where
  "get_auth_token st w =
     bind (call (AcquireToken (application_id st) (application_secret st)
                   (''https://login.microsoftonline.com/'' @ tenant_id st)
                   [''https://management.core.windows.net//.default''])
             (acquire_token_for_client w (application_id st) (application_secret st)
                (''https://login.microsoftonline.com/'' @ tenant_id st)
                [''https://management.core.windows.net//.default'']))
       (\<lambda>token.
          if ''access_token'' \<in> fst ` set token then lift (dict_get token ''access_token'')
          else bind (lift (dict_get token ''error'')) (\<lambda>err.
               bind (lift (dict_get token ''error_description'')) (\<lambda>descr.
               bind (log_warning ''Failed to get auth token''
                       [(''error'', JStr err), (''error_description'', JStr descr)] None) (\<lambda>_.
               exit 1))))"

subsection \<open>\<^verbatim>\<open>_filter_ip_versions\<close>\<close>

record ip_versions =
  ipv4 :: "json list"
  ipv6 :: "json list"

text \<open>
  The loop over \<^verbatim>\<open>networks\<close>, with the two lists built so far. \<^verbatim>\<open>ip_network\<close> is
  called again for the \<^verbatim>\<open>elif\<close>; an exception of either call leaves the function.
\<close>

fun filter_loop :: "json list \<Rightarrow> json list \<Rightarrow> json list \<Rightarrow> (json list \<times> json list) io" where
  "filter_loop [] v4 v6 = ret (v4, v6)"
| "filter_loop (network # rest) v4 v6 =
     (case ip_network network of
        Inl e \<Rightarrow> raise e
      | Inr c \<Rightarrow>
          if c = IPv4Network then filter_loop rest (v4 @ [network]) v6
          else (case ip_network network of
                  Inl e \<Rightarrow> raise e
                | Inr c' \<Rightarrow>
                    if c' = IPv6Network then filter_loop rest v4 (v6 @ [network])
                    else after [LogWarning ''Unknown Network Detected'' [(''network'', network)] None]
                           (filter_loop rest v4 v6)))"

definition filter_ip_versions :: "json list \<Rightarrow> ip_versions io" where
  "filter_ip_versions networks =
     bind (filter_loop networks [] []) (\<lambda>(v4, v6).
     bind (log_warning ''Successfully Split IPv4 and IPv6 Addresses''
             [(''ipv4'', JArr v4), (''ipv6'', JArr v6)] None) (\<lambda>_.
     ret \<lparr>ipv4 = v4, ipv6 = v6\<rparr>))"

subsection \<open>\<^verbatim>\<open>_get_frontdoor_ips\<close>\<close>

definition page :: string where
  "page = ''https://www.microsoft.com/en-us/download/confirmation.aspx?id=56519''"

definition browser_headers :: headers where
  "browser_headers =
     [(''User-Agent'',
       ''Mozilla/5.0 (Macintosh; Intel Mac OS X 10_15_7) AppleWebKit/537.36 ''
       @ ''(KHTML, like Gecko) Chrome/105.0.0.0 Safari/537.36 Edg/105.0.1343.42'')]"

text \<open>
  \<^verbatim>\<open>next(section for section in values if section["id"] == "AzureFrontDoor.Frontend")\<close>:
  the sections are tried in order; a section without an \<^verbatim>\<open>id\<close> raises before any later
  one is looked at, and running out of sections raises \<^verbatim>\<open>StopIteration\<close>.
\<close>

fun next_section :: "json list \<Rightarrow> exn + json" where
  "next_section [] = Inl StopIteration"
| "next_section (section # rest) =
     (case subscript section ''id'' of
        Inl e \<Rightarrow> Inl e
      | Inr i \<Rightarrow> if i = JStr ''AzureFrontDoor.Frontend'' then Inr section else next_section rest)"

text \<open>\<^verbatim>\<open>soup.find("a", attrs={"data-bi-id": "downloadretry"}).attrs["href"]\<close>.\<close>

definition find_href :: "world \<Rightarrow> string \<Rightarrow> exn + string" where
  "find_href w doc =
     (case soup_find w doc of
        None \<Rightarrow> Inl AttributeError
      | Some attrs \<Rightarrow> dict_get attrs ''href'')"

definition fetch_section :: "world \<Rightarrow> json io" where
  "fetch_section w =
     bind (call (HttpGet page browser_headers) (requests_get w page browser_headers)) (\<lambda>resp.
     bind (raise_for_status resp) (\<lambda>_.
     bind (lift (find_href w (content resp))) (\<lambda>json_file.
     bind (call (HttpGet json_file browser_headers) (requests_get w json_file browser_headers)) (\<lambda>file_resp.
     bind (lift (json_loads w (content file_resp))) (\<lambda>data.
     bind (lift (subscript data ''values'')) (\<lambda>values.
     bind (lift (py_iter values)) (\<lambda>sections.
     lift (next_section sections))))))))"

definition get_frontdoor_ips :: "world \<Rightarrow> json list io" where
  "get_frontdoor_ips w =
     bind (try_except (fetch_section w)
             (\<lambda>e. bind (log_warning ''Unable to get IP list from Microsoft Documentation'' [] (Some e))
                     (\<lambda>_. exit 1)))
       (\<lambda>frontdoor.
          bind (lift (subscript frontdoor ''properties'')) (\<lambda>props.
          bind (lift (subscript props ''addressPrefixes'')) (\<lambda>address_prefixes.
          lift (py_iter address_prefixes))))"

subsection \<open>\<^verbatim>\<open>update_azure_ip_group\<close>\<close>

definition resource_url :: "settings \<Rightarrow> string" where
  "resource_url st =
     ''https://management.azure.com''
     @ ''/subscriptions/'' @ subscription_id st
     @ ''/resourceGroups/'' @ resource_group_name st
     @ ''/providers/Microsoft.Network/ipGroups/'' @ ip_group_name st
     @ ''?api-version=2022-01-01''"

definition api_headers :: "string \<Rightarrow> headers" where
  "api_headers auth_token =
     [(''Authorization'', ''Bearer '' @ auth_token), (''Content-Type'', ''application/json'')]"

text \<open>The body of the \<^verbatim>\<open>try\<close>: the PUT, its status check, the success line.\<close>

definition submit_update :: "settings \<Rightarrow> world \<Rightarrow> string \<Rightarrow> json list \<Rightarrow> json \<Rightarrow> unit io" where
  "submit_update st w auth_token addresses existing_metadata =
     bind (lift (subscript existing_metadata ''tags'')) (\<lambda>tags.
     bind (lift (subscript existing_metadata ''location'')) (\<lambda>location.
     bind (call (HttpPut (resource_url st) (api_headers auth_token)
                   (JObj [(''tags'', tags), (''location'', location),
                          (''properties'', JObj [(''ipAddresses'', JArr addresses)])]))
             (requests_put w (resource_url st) (api_headers auth_token)
                (JObj [(''tags'', tags), (''location'', location),
                       (''properties'', JObj [(''ipAddresses'', JArr addresses)])]))) (\<lambda>update_group.
     bind (raise_for_status update_group) (\<lambda>_.
     log_warning ''Successfully updated IP Group with latest set of networks'' [] None))))"

definition update_azure_ip_group :: "settings \<Rightarrow> world \<Rightarrow> string \<Rightarrow> json list \<Rightarrow> bool \<Rightarrow> unit io" where
  "update_azure_ip_group st w auth_token addresses dry_run =
     bind (call (HttpGet (resource_url st) (api_headers auth_token))
             (requests_get w (resource_url st) (api_headers auth_token))) (\<lambda>resp.
     bind (lift (json_loads w (content resp))) (\<lambda>existing_metadata.
     bind (lift (subscript existing_metadata ''properties'')) (\<lambda>props.
     bind (lift (subscript props ''ipAddresses'')) (\<lambda>old_addresses.
     bind (lift (subscript existing_metadata ''tags'')) (\<lambda>tags.
     bind (lift (subscript existing_metadata ''location'')) (\<lambda>location.
     bind (log_warning ''Successfully pulled existing resource metadata''
             [(''addresses'', old_addresses), (''tags'', tags), (''location'', location)] None) (\<lambda>_.
     if dry_run then log_warning ''Dry Run mode enabled, skipping actual update'' [] None
     else bind (log_warning ''Submitting new list of IPs to Azure API''
                  [(''ips'', JArr addresses)] None) (\<lambda>_.
          try_except (submit_update st w auth_token addresses existing_metadata)
            (\<lambda>e. log_warning ''Something went wrong'' [] (Some e))))))))))"

subsection \<open>\<^verbatim>\<open>main\<close>\<close>

text \<open>\<open>flag\<close> is \<^verbatim>\<open>args.dry_run\<close>, whether \<^verbatim>\<open>--dry-run\<close> was given.\<close>

definition main :: "settings \<Rightarrow> world \<Rightarrow> bool \<Rightarrow> unit io" where
  "main st w flag =
     (let dry_run = (if flag then True else False) in
      bind (get_auth_token st w) (\<lambda>auth_token.
      bind (get_frontdoor_ips w) (\<lambda>frontdoor_ips.
      bind (filter_ip_versions frontdoor_ips) (\<lambda>frontdoor_ip_versions.
      if int (length (ipv4 frontdoor_ip_versions)) > minimum_acceptable_v4_networks st
      then update_azure_ip_group st w auth_token (ipv4 frontdoor_ip_versions) dry_run
      else bind (log_warning (''Less than '' @ str_int (minimum_acceptable_v4_networks st)
                              @ '' IPv4 Networks detected, cowardly exiting'') [] None) (\<lambda>_.
           exit 1)))))"

section \<open>Reading a trace\<close>

fun is_put :: "event \<Rightarrow> bool" where
  "is_put (HttpPut _ _ _) = True"
| "is_put _ = False"

fun is_http :: "event \<Rightarrow> bool" where
  "is_http (HttpGet _ _) = True"
| "is_http (HttpPut _ _ _) = True"
| "is_http _ = False"

text \<open>A request of the reconciler: to the IP group, with the bearer token.\<close>

fun is_resource_request :: "settings \<Rightarrow> string \<Rightarrow> event \<Rightarrow> bool" where
  "is_resource_request st tok (HttpGet url hdrs) = (url = resource_url st \<and> hdrs = api_headers tok)"
| "is_resource_request st tok (HttpPut url hdrs body) = (url = resource_url st \<and> hdrs = api_headers tok)"
| "is_resource_request st tok _ = False"

text \<open>The token request \<^verbatim>\<open>_get_auth_token\<close> makes.\<close>

definition token_request :: "settings \<Rightarrow> event" where
  "token_request st =
     AcquireToken (application_id st) (application_secret st)
       (''https://login.microsoftonline.com/'' @ tenant_id st)
       [''https://management.core.windows.net//.default'']"


text \<open>The line \<^verbatim>\<open>main\<close> logs when too few IPv4 networks were found.\<close>

definition threshold_log :: "settings \<Rightarrow> event" where
  "threshold_log st =
     LogWarning (''Less than '' @ str_int (minimum_acceptable_v4_networks st)
                 @ '' IPv4 Networks detected, cowardly exiting'') [] None"

text \<open>The body of the PUT for given tags, location and addresses.\<close>

definition update_body :: "json \<Rightarrow> json \<Rightarrow> json list \<Rightarrow> json" where
  "update_body tags location addresses =
     JObj [(''tags'', tags), (''location'', location),
           (''properties'', JObj [(''ipAddresses'', JArr addresses)])]"

text \<open>The lines \<^verbatim>\<open>update_azure_ip_group\<close> logs: after the read, before the write, on a failed write.\<close>

definition read_log :: "json \<Rightarrow> json \<Rightarrow> json \<Rightarrow> event" where
  "read_log old_addresses tags location =
     LogWarning ''Successfully pulled existing resource metadata''
       [(''addresses'', old_addresses), (''tags'', tags), (''location'', location)] None"

definition submit_log :: "json list \<Rightarrow> event" where
  "submit_log addresses =
     LogWarning ''Submitting new list of IPs to Azure API'' [(''ips'', JArr addresses)] None"

definition write_failure_log :: "exn \<Rightarrow> event" where
  "write_failure_log e = LogWarning ''Something went wrong'' [] (Some e)"

fun is_unknown_network_warning :: "event \<Rightarrow> bool" where
  "is_unknown_network_warning (LogWarning msg _ _) = (msg = ''Unknown Network Detected'')"
| "is_unknown_network_warning _ = False"

section \<open>Scenarios\<close>

text \<open>
  Concrete settings, documents and worlds on which the theorems below are exercised. In a
  scenario world the landing page and the download it links to are served under fixed
  URLs; every other GET is one to the IP group.
\<close>

definition scenario_settings :: "int \<Rightarrow> settings" where
  "scenario_settings threshold =
     \<lparr>tenant_id = ''tenant'', application_id = ''app'', application_secret = ''secret'',
      subscription_id = ''sub'', resource_group_name = ''rg'', ip_group_name = ''frontdoor'',
      minimum_acceptable_v4_networks = threshold\<rparr>"

definition token_ok :: "(string \<times> string) list" where
  "token_ok = [(''token_type'', ''Bearer''), (''access_token'', ''abc'')]"

definition token_rejected :: "(string \<times> string) list" where
  "token_rejected = [(''error'', ''invalid_client''), (''error_description'', ''bad secret'')]"

definition landing :: response where
  "landing = \<lparr>status_code = 200, content = ''landing''\<rparr>"

definition anchor :: "(string \<times> string) list" where
  "anchor = [(''data-bi-id'', ''downloadretry''), (''href'', ''https://download.example/tags.json'')]"

text \<open>The vendor document: another section first, then the one consumed.\<close>

definition service_tags :: "json list \<Rightarrow> json" where
  "service_tags address_prefixes =
     JObj [(''values'',
            JArr [JObj [(''id'', JStr ''AzureFrontDoor.Backend''),
                        (''properties'', JObj [(''addressPrefixes'', JArr [JStr ''20.0.0.0/8''])])],
                  JObj [(''id'', JStr ''AzureFrontDoor.Frontend''),
                        (''properties'', JObj [(''addressPrefixes'', JArr address_prefixes)])]])]"

definition existing_resource :: json where
  "existing_resource =
     JObj [(''tags'', JObj [(''env'', JStr ''prod'')]),
           (''location'', JStr ''eastus''),
           (''properties'', JObj [(''ipAddresses'', JArr [JStr ''1.2.3.0/24''])])]"

definition resource_response :: response where
  "resource_response = \<lparr>status_code = 200, content = ''resource''\<rparr>"

definition download :: response where
  "download = \<lparr>status_code = 200, content = ''tags''\<rparr>"

text \<open>An answer of the resource API that \<^verbatim>\<open>raise_for_status\<close> rejects.\<close>

definition server_error :: response where
  "server_error = \<lparr>status_code = 500, content = ''error''\<rparr>"

definition scenario_world ::
  "(string \<times> string) list \<Rightarrow> exn + response \<Rightarrow> (string \<times> string) list option \<Rightarrow> exn + response
     \<Rightarrow> exn + json \<Rightarrow> exn + response \<Rightarrow> exn + response \<Rightarrow> world" where
  "scenario_world token page_get found download_get tags_doc resource_get resource_put =
     \<lparr>acquire_token_for_client = (\<lambda>client_id credential authority scopes. Inr token),
      requests_get =
        (\<lambda>url hdrs.
           if url = page then page_get
           else if url = ''https://download.example/tags.json'' then download_get
           else resource_get),
      requests_put = (\<lambda>url hdrs body. resource_put),
      soup_find = (\<lambda>doc. if doc = ''landing'' then found else None),
      json_loads =
        (\<lambda>doc.
           if doc = ''tags'' then tags_doc
           else if doc = ''resource'' then Inr existing_resource
           else Inl JSONDecodeError)\<rparr>"

text \<open>A world in which the token is granted and the vendor document is served.\<close>

definition world_ok :: "json \<Rightarrow> exn + response \<Rightarrow> exn + response \<Rightarrow> world" where
  "world_ok tags_doc resource_get resource_put =
     scenario_world token_ok (Inr landing) (Some anchor) (Inr download) (Inr tags_doc)
       resource_get resource_put"

text \<open>
  A published list of eleven IPv4 prefixes and one IPv6 prefix, not in sorted order, and
  its two families.
\<close>

definition vendor_prefixes :: "json list" where
  "vendor_prefixes =
     [JStr ''13.73.248.16/29'', JStr ''20.21.37.40/29'', JStr ''2a01:111:2050::/44'',
      JStr ''20.36.120.104/29'', JStr ''20.37.64.104/29'', JStr ''20.37.156.120/29'',
      JStr ''20.37.195.0/29'', JStr ''20.37.224.104/29'', JStr ''20.38.84.72/29'',
      JStr ''20.38.136.104/29'', JStr ''20.39.11.8/29'', JStr ''4.232.98.120/29'']"

definition vendor_v4 :: "json list" where
  "vendor_v4 =
     [JStr ''13.73.248.16/29'', JStr ''20.21.37.40/29'',
      JStr ''20.36.120.104/29'', JStr ''20.37.64.104/29'', JStr ''20.37.156.120/29'',
      JStr ''20.37.195.0/29'', JStr ''20.37.224.104/29'', JStr ''20.38.84.72/29'',
      JStr ''20.38.136.104/29'', JStr ''20.39.11.8/29'', JStr ''4.232.98.120/29'']"

definition vendor_v6 :: "json list" where
  "vendor_v6 = [JStr ''2a01:111:2050::/44'']"

text \<open>The same IPv4 prefixes published with other IPv6 prefixes around them.\<close>

definition vendor_prefixes_other_v6 :: "json list" where
  "vendor_prefixes_other_v6 = JStr ''2603:1030:b::/48'' # vendor_v4 @ [JStr ''::/0'']"

text \<open>The log line of a classification into the two given buckets.\<close>

definition split_log :: "json list \<Rightarrow> json list \<Rightarrow> event" where
  "split_log v4 v6 =
     LogWarning ''Successfully Split IPv4 and IPv6 Addresses''
       [(''ipv4'', JArr v4), (''ipv6'', JArr v6)] None"

section \<open>Laws of the combinators\<close>

lemma after_Nil [simp]: "after [] m = m"
  by (simp add: after_def)

lemma after_pair [simp]: "after es (es', r) = (es @ es', r)"
  by (simp add: after_def)

lemma after_after [simp]: "after es (after es' m) = after (es @ es') m"
  by (simp add: after_def)

lemma fst_after [simp]: "fst (after es m) = es @ fst m"
  by (simp add: after_def)

lemma snd_after [simp]: "snd (after es m) = snd m"
  by (simp add: after_def)

lemma bind_Inr [simp]: "bind (es, Inr x) f = after es (f x)"
  by (simp add: bind_def)

lemma bind_Inl [simp]: "bind (es, Inl e) f = (es, Inl e)"
  by (simp add: bind_def)

lemma bind_after [simp]: "bind (after es m) f = after es (bind m f)"
  by (cases m) (simp add: bind_def after_def split: sum.splits)

lemma try_except_Inr [simp]: "try_except (es, Inr x) h = (es, Inr x)"
  by (simp add: try_except_def)

lemma try_except_Inl [simp]:
  "try_except (es, Inl e) h = (if is_Exception e then after es (h e) else (es, Inl e))"
  by (simp add: try_except_def)

lemma exit_status_after [simp]: "exit_status (after es m) = exit_status m"
  by (cases m rule: exit_status.cases) simp_all

lemmas io_defs = ret_def raise_def lift_def call_def log_warning_def exit_def

section \<open>Classification\<close>

lemma ip_network_raises: "ip_network x = Inl e \<Longrightarrow> e = ValueError"
  by (auto simp: ip_network_def split: sum.splits ip_error.splits)

lemma ip_network_class: "ip_network x = Inr c \<Longrightarrow> c = IPv4Network \<or> c = IPv6Network"
  by (auto simp: ip_network_def split: sum.splits ip_error.splits)

lemma filter_loop_no_events: "fst (filter_loop ns v4 v6) = []"
proof (induction ns arbitrary: v4 v6)
  case Nil
  show ?case by (simp add: ret_def)
next
  case (Cons n ns)
  show ?case
  proof (cases "ip_network n")
    case (Inl e)
    then show ?thesis by (simp add: raise_def)
  next
    case (Inr c)
    with ip_network_class [OF Inr] Cons.IH show ?thesis by auto
  qed
qed

lemma filter_loop_buckets:
  "filter_loop ns v4 v6 = (es, Inr (a, b)) \<Longrightarrow>
     a = v4 @ filter (\<lambda>n. ip_network n = Inr IPv4Network) ns \<and>
     b = v6 @ filter (\<lambda>n. ip_network n = Inr IPv6Network) ns"
proof (induction ns arbitrary: v4 v6)
  case Nil
  then show ?case by (simp add: ret_def)
next
  case (Cons n ns)
  show ?case
  proof (cases "ip_network n")
    case (Inl e)
    with Cons.prems show ?thesis by (simp add: raise_def)
  next
    case (Inr c)
    from ip_network_class [OF Inr] show ?thesis
    proof
      assume c: "c = IPv4Network"
      with Inr Cons.prems have "filter_loop ns (v4 @ [n]) v6 = (es, Inr (a, b))" by simp
      from Cons.IH [OF this] Inr c show ?thesis by simp
    next
      assume c: "c = IPv6Network"
      with Inr Cons.prems have "filter_loop ns v4 (v6 @ [n]) = (es, Inr (a, b))" by simp
      from Cons.IH [OF this] Inr c show ?thesis by simp
    qed
  qed
qed

lemma filter_loop_raises:
  "ip_network n = Inl ValueError \<Longrightarrow> n \<in> set ns \<Longrightarrow> filter_loop ns v4 v6 = ([], Inl ValueError)"
proof (induction ns arbitrary: v4 v6)
  case Nil
  then show ?case by simp
next
  case (Cons m ns)
  show ?case
  proof (cases "ip_network m")
    case (Inl e)
    then have "e = ValueError" by (rule ip_network_raises)
    with Inl show ?thesis by (simp add: raise_def)
  next
    case (Inr c)
    with Cons.prems have "n \<in> set ns" by auto
    with Cons.IH Cons.prems(1) Inr ip_network_class [OF Inr] show ?thesis by auto
  qed
qed

lemma filter_ip_versions_Inr:
  "filter_ip_versions ns = (es, Inr vers) \<Longrightarrow>
     filter_loop ns [] [] = ([], Inr (ipv4 vers, ipv6 vers)) \<and>
     es = [LogWarning ''Successfully Split IPv4 and IPv6 Addresses''
             [(''ipv4'', JArr (ipv4 vers)), (''ipv6'', JArr (ipv6 vers))] None]"
proof -
  assume a: "filter_ip_versions ns = (es, Inr vers)"
  obtain es0 r where l: "filter_loop ns [] [] = (es0, r)" by (cases "filter_loop ns [] []")
  with filter_loop_no_events [of ns "[]" "[]"] have "es0 = []" by simp
  with a l show ?thesis
    by (cases r) (auto simp: filter_ip_versions_def io_defs split: prod.splits)
qed

section \<open>The stages of a run\<close>

lemma get_auth_token_ok:
  assumes "acquire_token_for_client w (application_id st) (application_secret st)
             (''https://login.microsoftonline.com/'' @ tenant_id st)
             [''https://management.core.windows.net//.default''] = Inr token"
    and "dict_get token ''access_token'' = Inr t"
  shows "get_auth_token st w = ([token_request st], Inr t)"
proof -
  from assms(2) have "map_of token ''access_token'' = Some t"
    by (simp add: dict_get_def split: option.splits)
  then have "''access_token'' \<in> fst ` set token"
    by (metis domI dom_map_of_conv_image_fst)
  with assms show ?thesis
    by (simp add: get_auth_token_def token_request_def io_defs)
qed

lemma get_auth_token_rejected:
  assumes "acquire_token_for_client w (application_id st) (application_secret st)
             (''https://login.microsoftonline.com/'' @ tenant_id st)
             [''https://management.core.windows.net//.default''] = Inr token"
    and "''access_token'' \<notin> fst ` set token"
    and "dict_get token ''error'' = Inr err"
    and "dict_get token ''error_description'' = Inr descr"
  shows "get_auth_token st w =
           ([token_request st,
             LogWarning ''Failed to get auth token''
               [(''error'', JStr err), (''error_description'', JStr descr)] None],
            Inl (SystemExit 1))"
  using assms by (simp add: get_auth_token_def token_request_def io_defs)

lemma get_auth_token_no_http: "ev \<in> set (fst (get_auth_token st w)) \<Longrightarrow> \<not> is_http ev"
  by (auto simp: get_auth_token_def io_defs bind_def after_def split: sum.splits if_splits)

lemma filter_ip_versions_no_http: "ev \<in> set (fst (filter_ip_versions ns)) \<Longrightarrow> \<not> is_http ev"
proof -
  obtain es0 r where l: "filter_loop ns [] [] = (es0, r)" by (cases "filter_loop ns [] []")
  with filter_loop_no_events [of ns "[]" "[]"] have "es0 = []" by simp
  with l show "ev \<in> set (fst (filter_ip_versions ns)) \<Longrightarrow> \<not> is_http ev"
    by (cases r) (auto simp: filter_ip_versions_def io_defs split: prod.splits)
qed

lemma fetch_section_http:
  "ev \<in> set (fst (fetch_section w)) \<Longrightarrow> \<exists>url. ev = HttpGet url browser_headers"
  by (auto simp: fetch_section_def raise_for_status_def io_defs bind_def after_def split: sum.splits if_splits)

lemma get_frontdoor_ips_http:
  "ev \<in> set (fst (get_frontdoor_ips w)) \<Longrightarrow> is_http ev \<Longrightarrow> \<exists>url. ev = HttpGet url browser_headers"
proof -
  assume a: "ev \<in> set (fst (get_frontdoor_ips w))" and h: "is_http ev"
  obtain es r where f: "fetch_section w = (es, r)" by (cases "fetch_section w")
  from a h f have "ev \<in> set es"
    by (cases r) (auto simp: get_frontdoor_ips_def io_defs bind_def after_def split: sum.splits if_splits)
  with f fetch_section_http [of ev w] show ?thesis by simp
qed

lemma api_headers_not_browser: "api_headers tok \<noteq> browser_headers"
  by (simp add: api_headers_def browser_headers_def)

lemma main_auth_fails:
  "get_auth_token st w = (es1, Inl e) \<Longrightarrow> main st w flag = (es1, Inl e)"
  by (simp add: main_def)


lemma main_classify_fails:
  "get_auth_token st w = (es1, Inr tok) \<Longrightarrow> get_frontdoor_ips w = (es2, Inr ips) \<Longrightarrow>
   filter_ip_versions ips = (es3, Inl e) \<Longrightarrow>
     main st w flag = (es1 @ es2 @ es3, Inl e)"
  by (simp add: main_def)

lemma main_validates:
  "get_auth_token st w = (es1, Inr tok) \<Longrightarrow> get_frontdoor_ips w = (es2, Inr ips) \<Longrightarrow>
   filter_ip_versions ips = (es3, Inr vers) \<Longrightarrow>
     main st w flag =
       after (es1 @ es2 @ es3)
         (if int (length (ipv4 vers)) > minimum_acceptable_v4_networks st
          then update_azure_ip_group st w tok (ipv4 vers) flag
          else ([threshold_log st], Inl (SystemExit 1)))"
  by (simp add: main_def threshold_log_def io_defs)


lemma submit_update_shape:
  assumes "subscript md ''tags'' = Inr tags" and "subscript md ''location'' = Inr loc"
  shows "submit_update st w tok addrs md =
           after [HttpPut (resource_url st) (api_headers tok) (update_body tags loc addrs)]
             (case requests_put w (resource_url st) (api_headers tok) (update_body tags loc addrs) of
                Inl e \<Rightarrow> ([], Inl e)
              | Inr r \<Rightarrow>
                  if 400 \<le> status_code r \<and> status_code r < 600
                  then ([], Inl (HTTPError (status_code r)))
                  else ([LogWarning ''Successfully updated IP Group with latest set of networks'' [] None],
                        Inr ()))"
  using assms
  by (simp add: submit_update_def update_body_def raise_for_status_def io_defs split: sum.splits)

lemma update_after_read:
  assumes "requests_get w (resource_url st) (api_headers tok) = Inr resp"
    and "json_loads w (content resp) = Inr md"
    and "subscript md ''properties'' = Inr props"
    and "subscript props ''ipAddresses'' = Inr old"
    and "subscript md ''tags'' = Inr tags"
    and "subscript md ''location'' = Inr loc"
  shows "update_azure_ip_group st w tok addrs dry =
           after [HttpGet (resource_url st) (api_headers tok),
                  LogWarning ''Successfully pulled existing resource metadata''
                    [(''addresses'', old), (''tags'', tags), (''location'', loc)] None]
             (if dry then ([LogWarning ''Dry Run mode enabled, skipping actual update'' [] None], Inr ())
              else after [LogWarning ''Submitting new list of IPs to Azure API'' [(''ips'', JArr addrs)] None]
                     (try_except (submit_update st w tok addrs md)
                        (\<lambda>e. ([LogWarning ''Something went wrong'' [] (Some e)], Inr ()))))"
  using assms by (simp add: update_azure_ip_group_def io_defs)

lemma update_read_raises:
  "requests_get w (resource_url st) (api_headers tok) = Inl e \<Longrightarrow>
     update_azure_ip_group st w tok addrs dry = ([HttpGet (resource_url st) (api_headers tok)], Inl e)"
  by (simp add: update_azure_ip_group_def io_defs)






lemma update_starts_with_get:
  "HttpGet (resource_url st) (api_headers tok)
     \<in> set (fst (update_azure_ip_group st w tok addrs dry))"
  by (simp add: update_azure_ip_group_def io_defs bind_def after_def split: sum.splits)

lemma resource_request_is_http: "is_resource_request st tok ev \<Longrightarrow> is_http ev"
  by (cases ev) simp_all

lemma no_resource_request_before_update:
  assumes "get_auth_token st w = (es1, r1)" and "get_frontdoor_ips w = (es2, r2)"
    and "filter_ip_versions ips = (es3, r3)"
  shows "\<not> list_ex (is_resource_request st tok) (es1 @ es2 @ es3)"
proof -
  have "\<not> is_resource_request st tok ev" if "ev \<in> set es1" for ev
    using get_auth_token_no_http [of ev st w] that assms(1) resource_request_is_http by fastforce
  moreover have "\<not> is_resource_request st tok ev" if "ev \<in> set es2" for ev
  proof
    assume r: "is_resource_request st tok ev"
    then have "is_http ev" by (rule resource_request_is_http)
    with get_frontdoor_ips_http [of ev w] that assms(2)
    obtain url where "ev = HttpGet url browser_headers" by auto
    with r show False by (simp add: api_headers_not_browser [symmetric])
  qed
  moreover have "\<not> is_resource_request st tok ev" if "ev \<in> set es3" for ev
    using filter_ip_versions_no_http [of ev ips] that assms(3) resource_request_is_http by fastforce
  ultimately show ?thesis by (auto simp: list_ex_iff)
qed

lemma scenario_auth:
  "get_auth_token st (world_ok t g u) = ([token_request st], Inr ''abc'')"
  by (rule get_auth_token_ok [where token = token_ok])
     (simp_all add: world_ok_def scenario_world_def token_ok_def dict_get_def)

lemma scenario_fetch:
  "get_frontdoor_ips (world_ok (service_tags xs) g u)
     = ([HttpGet page browser_headers,
         HttpGet ''https://download.example/tags.json'' browser_headers], Inr xs)"
proof -
  have "''https://download.example/tags.json'' \<noteq> page"
    by (simp add: page_def)
  then show ?thesis
    by (simp add: get_frontdoor_ips_def fetch_section_def find_href_def raise_for_status_def
          io_defs world_ok_def scenario_world_def landing_def download_def anchor_def
          dict_get_def service_tags_def)
qed

lemma scenario_classify:
  "filter_ip_versions vendor_prefixes
     = ([split_log vendor_v4 vendor_v6], Inr \<lparr>ipv4 = vendor_v4, ipv6 = vendor_v6\<rparr>)"
  by code_simp

lemma scenario_classify_other:
  "filter_ip_versions vendor_prefixes_other_v6
     = ([split_log vendor_v4 [JStr ''2603:1030:b::/48'', JStr ''::/0'']],
        Inr \<lparr>ipv4 = vendor_v4, ipv6 = [JStr ''2603:1030:b::/48'', JStr ''::/0'']\<rparr>)"
  by code_simp


lemma scenario_read:
  "requests_get (world_ok t (Inr resource_response) u) (resource_url (scenario_settings n))
     (api_headers tok) = Inr resource_response"
  "json_loads (world_ok t g u) (content resource_response) = Inr existing_resource"
  "subscript existing_resource ''properties'' = Inr (JObj [(''ipAddresses'', JArr [JStr ''1.2.3.0/24''])])"
  "subscript (JObj [(''ipAddresses'', JArr [JStr ''1.2.3.0/24''])]) ''ipAddresses''
     = Inr (JArr [JStr ''1.2.3.0/24''])"
  "subscript existing_resource ''tags'' = Inr (JObj [(''env'', JStr ''prod'')])"
  "subscript existing_resource ''location'' = Inr (JStr ''eastus'')"
  by (simp_all add: world_ok_def scenario_world_def resource_url_def scenario_settings_def
        page_def resource_response_def existing_resource_def dict_get_def)

lemma exit_status_Exception: "is_Exception e \<Longrightarrow> exit_status (es, Inl e) = 1"
  by (cases e) simp_all

lemma update_write_fails:
  assumes "requests_get w (resource_url st) (api_headers tok) = Inr resp"
    and "json_loads w (content resp) = Inr md"
    and "subscript md ''properties'' = Inr props"
    and "subscript props ''ipAddresses'' = Inr old"
    and "subscript md ''tags'' = Inr tags"
    and "subscript md ''location'' = Inr loc"
    and "requests_put w (resource_url st) (api_headers tok) (update_body tags loc addrs) = Inl e
         \<or> (\<exists>r. requests_put w (resource_url st) (api_headers tok) (update_body tags loc addrs) = Inr r
                \<and> 400 \<le> status_code r \<and> status_code r < 600 \<and> e = HTTPError (status_code r))"
    and "is_Exception e"
  shows "update_azure_ip_group st w tok addrs False
           = ([HttpGet (resource_url st) (api_headers tok), read_log old tags loc, submit_log addrs,
               HttpPut (resource_url st) (api_headers tok) (update_body tags loc addrs),
               write_failure_log e], Inr ())"
  unfolding update_after_read [OF assms(1-6)] submit_update_shape [OF assms(5,6)]
  using assms(7,8)
  by (auto simp: read_log_def submit_log_def write_failure_log_def)

lemma main_write_fails:
  assumes auth: "get_auth_token st w = (es1, Inr tok)"
    and fetch: "get_frontdoor_ips w = (es2, Inr ips)"
    and classify: "filter_ip_versions ips = (es3, Inr vers)"
    and enough: "int (length (ipv4 vers)) > minimum_acceptable_v4_networks st"
    and "requests_get w (resource_url st) (api_headers tok) = Inr resp"
    and "json_loads w (content resp) = Inr md"
    and "subscript md ''properties'' = Inr props"
    and "subscript props ''ipAddresses'' = Inr old"
    and "subscript md ''tags'' = Inr tags"
    and "subscript md ''location'' = Inr loc"
    and "requests_put w (resource_url st) (api_headers tok) (update_body tags loc (ipv4 vers)) = Inl e
         \<or> (\<exists>r. requests_put w (resource_url st) (api_headers tok) (update_body tags loc (ipv4 vers)) = Inr r
                \<and> 400 \<le> status_code r \<and> status_code r < 600 \<and> e = HTTPError (status_code r))"
    and "is_Exception e"
  shows "main st w False
           = (es1 @ es2 @ es3
                @ [HttpGet (resource_url st) (api_headers tok), read_log old tags loc,
                   submit_log (ipv4 vers),
                   HttpPut (resource_url st) (api_headers tok) (update_body tags loc (ipv4 vers)),
                   write_failure_log e], Inr ())"
  using main_validates [OF auth fetch classify, of False] enough
        update_write_fails [OF assms(5-12)]
  by simp

lemma put_is_http: "is_put ev \<Longrightarrow> is_http ev"
  by (cases ev) simp_all

lemma no_put_before_update:
  assumes "get_auth_token st w = (es1, r1)" and "get_frontdoor_ips w = (es2, r2)"
    and "filter_ip_versions ips = (es3, r3)"
  shows "filter is_put (es1 @ es2 @ es3) = []"
proof -
  have "\<not> is_put ev" if "ev \<in> set es1" for ev
    using get_auth_token_no_http [of ev st w] that assms(1) put_is_http by fastforce
  moreover have "\<not> is_put ev" if "ev \<in> set es2" for ev
  proof
    assume r: "is_put ev"
    then have "is_http ev" by (rule put_is_http)
    with get_frontdoor_ips_http [of ev w] that assms(2)
    obtain url where "ev = HttpGet url browser_headers" by auto
    with r show False by simp
  qed
  moreover have "\<not> is_put ev" if "ev \<in> set es3" for ev
    using filter_ip_versions_no_http [of ev ips] that assms(3) put_is_http by fastforce
  ultimately show ?thesis by (auto simp: filter_empty_conv)
qed

lemma update_same_answers:
  assumes g: "requests_get w1 (resource_url st) (api_headers tok)
                = requests_get w2 (resource_url st) (api_headers tok)"
    and j: "\<And>resp. requests_get w2 (resource_url st) (api_headers tok) = Inr resp \<Longrightarrow>
                json_loads w1 (content resp) = json_loads w2 (content resp)"
    and p: "requests_put w1 (resource_url st) (api_headers tok)
                = requests_put w2 (resource_url st) (api_headers tok)"
  shows "update_azure_ip_group st w1 tok addrs dry = update_azure_ip_group st w2 tok addrs dry"
proof -
  have s: "submit_update st w1 tok addrs md = submit_update st w2 tok addrs md" for md
    by (simp add: submit_update_def p)
  show ?thesis
  proof (cases "requests_get w2 (resource_url st) (api_headers tok)")
    case (Inl e)
    with g show ?thesis by (simp add: update_azure_ip_group_def io_defs)
  next
    case (Inr resp)
    with g j [OF Inr] show ?thesis
      by (cases dry) (simp_all add: update_azure_ip_group_def s call_def)
  qed
qed

section \<open>The claims\<close>

text \<open>
  C1, on the spec's own example: \<^verbatim>\<open>classify(["10.0.0.0/8", "2001:db8::/32", "not-an-ip"])\<close>
  does not return two buckets and a warning. \<^verbatim>\<open>ip_network("not-an-ip")\<close> raises
  \<^verbatim>\<open>ValueError\<close>, nothing in \<^verbatim>\<open>_filter_ip_versions\<close> catches it, and the function
  ends with that exception and without a single log line.
\<close>

theorem classify_example_raises:
  "filter_ip_versions [JStr ''10.0.0.0/8'', JStr ''2001:db8::/32'', JStr ''not-an-ip'']
     = ([], Inl ValueError)"
  by code_simp

text \<open>
  C2, as stated, fails for the read. In a run that logs in, fetches and classifies eleven
  IPv4 prefixes against a threshold of ten, let the GET of the IP group raise
  \<^verbatim>\<open>ConnectionError\<close>: the GET stands outside the \<^verbatim>\<open>try\<close>, so the exception leaves
  \<^verbatim>\<open>update_azure_ip_group\<close> and \<^verbatim>\<open>main\<close> uncaught and unlogged, and the process ends
  with status 1, not 0.
\<close>

theorem read_failure_exits_nonzero:
  "main (scenario_settings 10)
     (world_ok (service_tags vendor_prefixes) (Inl ConnectionError) (Inr resource_response)) False
   = ([token_request (scenario_settings 10), HttpGet page browser_headers,
       HttpGet ''https://download.example/tags.json'' browser_headers,
       split_log vendor_v4 vendor_v6,
       HttpGet (resource_url (scenario_settings 10)) (api_headers ''abc'')],
      Inl ConnectionError) \<and>
   exit_status
     (main (scenario_settings 10)
        (world_ok (service_tags vendor_prefixes) (Inl ConnectionError) (Inr resource_response))
        False) = 1"
proof -
  let ?st = "scenario_settings 10"
  let ?w = "world_ok (service_tags vendor_prefixes) (Inl ConnectionError) (Inr resource_response)"
  have g: "requests_get ?w (resource_url ?st) (api_headers ''abc'') = Inl ConnectionError"
    by (simp add: world_ok_def scenario_world_def resource_url_def scenario_settings_def page_def)
  have n: "int (length vendor_v4) > minimum_acceptable_v4_networks ?st"
    by (simp add: vendor_v4_def scenario_settings_def)
  from main_validates [OF scenario_auth scenario_fetch scenario_classify, of ?st _ _ False] n
       update_read_raises [OF g]
  have m: "main ?st ?w False
     = ([token_request ?st, HttpGet page browser_headers,
         HttpGet ''https://download.example/tags.json'' browser_headers,
         split_log vendor_v4 vendor_v6,
         HttpGet (resource_url ?st) (api_headers ''abc'')],
        Inl ConnectionError)"
    by simp
  show ?thesis unfolding m by simp
qed

text \<open>
  C2, amended: in a run that reached the reconciler, a failure of the write is absorbed
  and a failure of the read is not. When the GET returned the resource and the PUT raises
  an exception, or is answered with a 4xx or 5xx status, the \<^verbatim>\<open>except Exception\<close> around
  the PUT logs \<^verbatim>\<open>Something went wrong\<close> with that exception, \<^verbatim>\<open>main\<close> returns and the
  exit status is 0. When the GET raises an exception, it propagates: the trace ends with
  the GET, nothing is logged, and the exit status is 1.
\<close>

theorem write_failure_absorbed_read_failure_fatal:
  assumes auth: "get_auth_token st w = (es1, Inr tok)"
    and fetch: "get_frontdoor_ips w = (es2, Inr ips)"
    and classify: "filter_ip_versions ips = (es3, Inr vers)"
    and enough: "int (length (ipv4 vers)) > minimum_acceptable_v4_networks st"
  shows
    "(requests_get w (resource_url st) (api_headers tok) = Inr resp \<and>
      json_loads w (content resp) = Inr md \<and>
      subscript md ''properties'' = Inr props \<and>
      subscript props ''ipAddresses'' = Inr old \<and>
      subscript md ''tags'' = Inr tags \<and>
      subscript md ''location'' = Inr loc \<longrightarrow>
        (requests_put w (resource_url st) (api_headers tok) (update_body tags loc (ipv4 vers)) = Inl e \<and>
         is_Exception e \<longrightarrow>
           main st w False
             = (es1 @ es2 @ es3
                  @ [HttpGet (resource_url st) (api_headers tok), read_log old tags loc,
                     submit_log (ipv4 vers),
                     HttpPut (resource_url st) (api_headers tok) (update_body tags loc (ipv4 vers)),
                     write_failure_log e], Inr ()) \<and>
           exit_status (main st w False) = 0) \<and>
        (requests_put w (resource_url st) (api_headers tok) (update_body tags loc (ipv4 vers)) = Inr r \<and>
         400 \<le> status_code r \<and> status_code r < 600 \<longrightarrow>
           main st w False
             = (es1 @ es2 @ es3
                  @ [HttpGet (resource_url st) (api_headers tok), read_log old tags loc,
                     submit_log (ipv4 vers),
                     HttpPut (resource_url st) (api_headers tok) (update_body tags loc (ipv4 vers)),
                     write_failure_log (HTTPError (status_code r))], Inr ()) \<and>
           exit_status (main st w False) = 0)) \<and>
     (requests_get w (resource_url st) (api_headers tok) = Inl e \<and> is_Exception e \<longrightarrow>
        main st w flag = (es1 @ es2 @ es3 @ [HttpGet (resource_url st) (api_headers tok)], Inl e) \<and>
        exit_status (main st w flag) = 1)"
proof (intro conjI impI; (elim conjE)?)
  assume read: "requests_get w (resource_url st) (api_headers tok) = Inr resp"
    "json_loads w (content resp) = Inr md" "subscript md ''properties'' = Inr props"
    "subscript props ''ipAddresses'' = Inr old" "subscript md ''tags'' = Inr tags"
    "subscript md ''location'' = Inr loc"
  {
    assume "requests_put w (resource_url st) (api_headers tok) (update_body tags loc (ipv4 vers)) = Inl e"
      and "is_Exception e"
    then show m: "main st w False
             = (es1 @ es2 @ es3
                  @ [HttpGet (resource_url st) (api_headers tok), read_log old tags loc,
                     submit_log (ipv4 vers),
                     HttpPut (resource_url st) (api_headers tok) (update_body tags loc (ipv4 vers)),
                     write_failure_log e], Inr ())"
      using main_write_fails [OF auth fetch classify enough read] by blast
    show "exit_status (main st w False) = 0" unfolding m by simp
  }
  {
    assume "requests_put w (resource_url st) (api_headers tok) (update_body tags loc (ipv4 vers)) = Inr r"
      and "400 \<le> status_code r" "status_code r < 600"
    then show m: "main st w False
             = (es1 @ es2 @ es3
                  @ [HttpGet (resource_url st) (api_headers tok), read_log old tags loc,
                     submit_log (ipv4 vers),
                     HttpPut (resource_url st) (api_headers tok) (update_body tags loc (ipv4 vers)),
                     write_failure_log (HTTPError (status_code r))], Inr ())"
      using main_write_fails [OF auth fetch classify enough read, of "HTTPError (status_code r)"]
      by auto
    show "exit_status (main st w False) = 0" unfolding m by simp
  }
next
  assume g: "requests_get w (resource_url st) (api_headers tok) = Inl e" and e: "is_Exception e"
  from main_validates [OF auth fetch classify, of flag] enough update_read_raises [OF g]
  show m: "main st w flag = (es1 @ es2 @ es3 @ [HttpGet (resource_url st) (api_headers tok)], Inl e)"
    by simp
  show "exit_status (main st w flag) = 1"
    unfolding m using e by (rule exit_status_Exception)
qed

theorem write_failure_absorbed_read_failure_fatal_witness:
  "main (scenario_settings 10)
     (world_ok (service_tags vendor_prefixes) (Inr resource_response) (Inl ConnectionError)) False
   = ([token_request (scenario_settings 10), HttpGet page browser_headers,
       HttpGet ''https://download.example/tags.json'' browser_headers,
       split_log vendor_v4 vendor_v6,
       HttpGet (resource_url (scenario_settings 10)) (api_headers ''abc''),
       read_log (JArr [JStr ''1.2.3.0/24'']) (JObj [(''env'', JStr ''prod'')]) (JStr ''eastus''),
       submit_log vendor_v4,
       HttpPut (resource_url (scenario_settings 10)) (api_headers ''abc'')
         (update_body (JObj [(''env'', JStr ''prod'')]) (JStr ''eastus'') vendor_v4),
       write_failure_log ConnectionError], Inr ()) \<and>
   exit_status
     (main (scenario_settings 10)
        (world_ok (service_tags vendor_prefixes) (Inr resource_response) (Inl ConnectionError))
        False) = 0 \<and>
   main (scenario_settings 10)
     (world_ok (service_tags vendor_prefixes) (Inr resource_response) (Inr server_error)) False
   = ([token_request (scenario_settings 10), HttpGet page browser_headers,
       HttpGet ''https://download.example/tags.json'' browser_headers,
       split_log vendor_v4 vendor_v6,
       HttpGet (resource_url (scenario_settings 10)) (api_headers ''abc''),
       read_log (JArr [JStr ''1.2.3.0/24'']) (JObj [(''env'', JStr ''prod'')]) (JStr ''eastus''),
       submit_log vendor_v4,
       HttpPut (resource_url (scenario_settings 10)) (api_headers ''abc'')
         (update_body (JObj [(''env'', JStr ''prod'')]) (JStr ''eastus'') vendor_v4),
       write_failure_log (HTTPError 500)], Inr ()) \<and>
   exit_status
     (main (scenario_settings 10)
        (world_ok (service_tags vendor_prefixes) (Inr resource_response) (Inr server_error))
        False) = 0 \<and>
   main (scenario_settings 10)
     (world_ok (service_tags vendor_prefixes) (Inl ConnectionError) (Inr resource_response)) True
   = ([token_request (scenario_settings 10), HttpGet page browser_headers,
       HttpGet ''https://download.example/tags.json'' browser_headers,
       split_log vendor_v4 vendor_v6,
       HttpGet (resource_url (scenario_settings 10)) (api_headers ''abc'')],
      Inl ConnectionError) \<and>
   exit_status
     (main (scenario_settings 10)
        (world_ok (service_tags vendor_prefixes) (Inl ConnectionError) (Inr resource_response))
        True) = 1"
proof -
  let ?st = "scenario_settings 10"
  let ?tags = "service_tags vendor_prefixes"
  let ?url = "resource_url ?st"
  have n: "int (length (ipv4 \<lparr>ipv4 = vendor_v4, ipv6 = vendor_v6\<rparr>))
             > minimum_acceptable_v4_networks ?st"
    by (simp add: vendor_v4_def scenario_settings_def)
  have read: "requests_get (world_ok ?tags (Inr resource_response) u) ?url (api_headers ''abc'')
             = Inr resource_response \<and>
           json_loads (world_ok ?tags (Inr resource_response) u) (content resource_response)
             = Inr existing_resource \<and>
           subscript existing_resource ''properties''
             = Inr (JObj [(''ipAddresses'', JArr [JStr ''1.2.3.0/24''])]) \<and>
           subscript (JObj [(''ipAddresses'', JArr [JStr ''1.2.3.0/24''])]) ''ipAddresses''
             = Inr (JArr [JStr ''1.2.3.0/24'']) \<and>
           subscript existing_resource ''tags'' = Inr (JObj [(''env'', JStr ''prod'')]) \<and>
           subscript existing_resource ''location'' = Inr (JStr ''eastus'')" for u
    by (intro conjI scenario_read)
  have put1: "requests_put (world_ok ?tags (Inr resource_response) (Inl ConnectionError))
                ?url (api_headers ''abc'') (update_body (JObj [(''env'', JStr ''prod'')]) (JStr ''eastus'')
                   (ipv4 \<lparr>ipv4 = vendor_v4, ipv6 = vendor_v6\<rparr>))
              = Inl ConnectionError \<and> is_Exception ConnectionError"
    by (simp add: world_ok_def scenario_world_def)
  have put2: "requests_put (world_ok ?tags (Inr resource_response) (Inr server_error))
                ?url (api_headers ''abc'') (update_body (JObj [(''env'', JStr ''prod'')]) (JStr ''eastus'')
                   (ipv4 \<lparr>ipv4 = vendor_v4, ipv6 = vendor_v6\<rparr>))
              = Inr server_error \<and> 400 \<le> status_code server_error \<and> status_code server_error < 600"
    by (simp add: world_ok_def scenario_world_def server_error_def)
  have get3: "requests_get (world_ok ?tags (Inl ConnectionError) (Inr resource_response))
                ?url (api_headers ''abc'') = Inl ConnectionError \<and> is_Exception ConnectionError"
    by (simp add: world_ok_def scenario_world_def resource_url_def scenario_settings_def page_def)
  have s: "status_code server_error = 500"
    by (simp add: server_error_def)
  note t = write_failure_absorbed_read_failure_fatal
             [OF scenario_auth scenario_fetch scenario_classify n]
  from t [THEN conjunct1, rule_format, OF read, THEN conjunct1, rule_format, OF put1]
       t [THEN conjunct1, rule_format, OF read, THEN conjunct2, rule_format, OF put2]
       t [THEN conjunct2, rule_format, OF get3, of True]
  show ?thesis by (simp add: s)
qed

text \<open>
  C3: when the GET returned a resource with tags \<open>tags\<close> and location \<open>loc\<close>, the one PUT
  of a run without \<^verbatim>\<open>dry_run\<close> has the body \<^verbatim>\<open>{"tags": tags, "location": loc,
  "properties": {"ipAddresses": addresses}}\<close>: tags and location as read, the address
  list replaced by the one supplied, and nothing else.
\<close>

theorem update_carries_tags_and_location:
  assumes "requests_get w (resource_url st) (api_headers tok) = Inr resp"
    and "json_loads w (content resp) = Inr md"
    and "subscript md ''properties'' = Inr props"
    and "subscript props ''ipAddresses'' = Inr old"
    and "subscript md ''tags'' = Inr tags"
    and "subscript md ''location'' = Inr loc"
  shows "filter is_put (fst (update_azure_ip_group st w tok addresses False))
           = [HttpPut (resource_url st) (api_headers tok)
                (JObj [(''tags'', tags), (''location'', loc),
                       (''properties'', JObj [(''ipAddresses'', JArr addresses)])])]"
  unfolding update_after_read [OF assms] submit_update_shape [OF assms(5,6)]
  by (simp add: try_except_def update_body_def split: sum.splits)

theorem update_carries_tags_and_location_witness:
  "filter is_put
     (fst (update_azure_ip_group (scenario_settings 10)
             (world_ok JNull (Inr resource_response) (Inr resource_response))
             ''abc'' [JStr ''5.6.7.0/24''] False))
     = [HttpPut (resource_url (scenario_settings 10)) (api_headers ''abc'')
          (JObj [(''tags'', JObj [(''env'', JStr ''prod'')]), (''location'', JStr ''eastus''),
                 (''properties'', JObj [(''ipAddresses'', JArr [JStr ''5.6.7.0/24''])])])]"
  by (rule update_carries_tags_and_location [OF scenario_read])

text \<open>
  C4: after a successful login, fetch and classification, the count of v4 prefixes decides.
  At or below \<^verbatim>\<open>minimum_acceptable_v4_networks\<close> the run adds exactly one event to those
  of the three stages, the warning that names the threshold, and ends with \<^verbatim>\<open>exit(1)\<close>;
  its trace holds no request of the reconciler (none to the IP group's URL with the bearer
  token). Strictly above the threshold the rest of the run is the call of
  \<^verbatim>\<open>update_azure_ip_group\<close> with the v4 bucket, whose GET is in the trace.
\<close>

theorem threshold_gates_reconciler:
  assumes auth: "get_auth_token st w = (es1, Inr tok)"
    and fetch: "get_frontdoor_ips w = (es2, Inr ips)"
    and classify: "filter_ip_versions ips = (es3, Inr vers)"
  shows
    "(int (length (ipv4 vers)) \<le> minimum_acceptable_v4_networks st \<longrightarrow>
        main st w flag
          = (es1 @ es2 @ es3
               @ [LogWarning (''Less than '' @ str_int (minimum_acceptable_v4_networks st)
                              @ '' IPv4 Networks detected, cowardly exiting'') [] None],
             Inl (SystemExit 1)) \<and>
        exit_status (main st w flag) = 1 \<and>
        \<not> list_ex (is_resource_request st tok) (fst (main st w flag))) \<and>
     (int (length (ipv4 vers)) > minimum_acceptable_v4_networks st \<longrightarrow>
        main st w flag
          = after (es1 @ es2 @ es3) (update_azure_ip_group st w tok (ipv4 vers) flag) \<and>
        HttpGet (resource_url st) (api_headers tok) \<in> set (fst (main st w flag)))"
proof (intro conjI impI)
  assume few: "int (length (ipv4 vers)) \<le> minimum_acceptable_v4_networks st"
  with main_validates [OF auth fetch classify, of flag]
  show m: "main st w flag
          = (es1 @ es2 @ es3
               @ [LogWarning (''Less than '' @ str_int (minimum_acceptable_v4_networks st)
                              @ '' IPv4 Networks detected, cowardly exiting'') [] None],
             Inl (SystemExit 1))"
    by (simp add: threshold_log_def)
  show "exit_status (main st w flag) = 1"
    unfolding m by simp
  from no_resource_request_before_update [OF auth fetch classify, of tok]
  show "\<not> list_ex (is_resource_request st tok) (fst (main st w flag))"
    unfolding m by (simp add: list_ex_iff)
next
  assume enough: "int (length (ipv4 vers)) > minimum_acceptable_v4_networks st"
  with main_validates [OF auth fetch classify, of flag]
  show m: "main st w flag
          = after (es1 @ es2 @ es3) (update_azure_ip_group st w tok (ipv4 vers) flag)"
    by simp
  show "HttpGet (resource_url st) (api_headers tok) \<in> set (fst (main st w flag))"
    unfolding m using update_starts_with_get [of st tok w "ipv4 vers" flag] by simp
qed

theorem threshold_gates_reconciler_witness:
  "main (scenario_settings 11)
     (world_ok (service_tags vendor_prefixes) (Inr resource_response) (Inr resource_response)) False
   = ([token_request (scenario_settings 11), HttpGet page browser_headers,
       HttpGet ''https://download.example/tags.json'' browser_headers,
       split_log vendor_v4 vendor_v6,
       LogWarning ''Less than 11 IPv4 Networks detected, cowardly exiting'' [] None],
      Inl (SystemExit 1)) \<and>
   exit_status
     (main (scenario_settings 11)
        (world_ok (service_tags vendor_prefixes) (Inr resource_response) (Inr resource_response))
        False) = 1 \<and>
   \<not> list_ex (is_resource_request (scenario_settings 11) ''abc'')
        (fst (main (scenario_settings 11)
           (world_ok (service_tags vendor_prefixes) (Inr resource_response) (Inr resource_response))
           False)) \<and>
   length vendor_v4 = 11 \<and>
   HttpGet (resource_url (scenario_settings 10)) (api_headers ''abc'')
     \<in> set (fst (main (scenario_settings 10)
           (world_ok (service_tags vendor_prefixes) (Inr resource_response) (Inr resource_response))
           False))"
proof -
  let ?w = "world_ok (service_tags vendor_prefixes) (Inr resource_response) (Inr resource_response)"
  have n: "length vendor_v4 = 11"
    by (simp add: vendor_v4_def)
  have s: "str_int 11 = ''11''"
    by code_simp
  have m11: "minimum_acceptable_v4_networks (scenario_settings 11) = 11"
    and m10: "minimum_acceptable_v4_networks (scenario_settings 10) = 10"
    by (simp_all add: scenario_settings_def)
  have le: "int (length (ipv4 \<lparr>ipv4 = vendor_v4, ipv6 = vendor_v6\<rparr>))
              \<le> minimum_acceptable_v4_networks (scenario_settings 11)"
    and gt: "int (length (ipv4 \<lparr>ipv4 = vendor_v4, ipv6 = vendor_v6\<rparr>))
              > minimum_acceptable_v4_networks (scenario_settings 10)"
    by (simp_all add: n m11 m10)
  note low = threshold_gates_reconciler
         [where st = "scenario_settings 11" and w = ?w and flag = False,
          OF scenario_auth scenario_fetch scenario_classify, THEN conjunct1, rule_format, OF le]
  note high = threshold_gates_reconciler
         [where st = "scenario_settings 10" and w = ?w and flag = False,
          OF scenario_auth scenario_fetch scenario_classify, THEN conjunct2, rule_format, OF gt]
  have a: "main (scenario_settings 11) ?w False
      = ([token_request (scenario_settings 11), HttpGet page browser_headers,
          HttpGet ''https://download.example/tags.json'' browser_headers,
          split_log vendor_v4 vendor_v6,
          LogWarning ''Less than 11 IPv4 Networks detected, cowardly exiting'' [] None],
         Inl (SystemExit 1))"
    using low [THEN conjunct1] by (simp add: m11 s)
  note b = low [THEN conjunct2, THEN conjunct1]
  note c = low [THEN conjunct2, THEN conjunct2]
  note d = high [THEN conjunct2]
  show ?thesis
    by (rule conjI a b c n d)+
qed



text \<open>
  C6: when the identity provider's answer holds no \<^verbatim>\<open>access_token\<close> but an \<^verbatim>\<open>error\<close>
  and an \<^verbatim>\<open>error_description\<close>, the whole run consists of the token request and one
  log line carrying both, and ends with exit status 1: no fetch, no request to the IP
  group. When the answer holds an \<^verbatim>\<open>access_token\<close>, \<^verbatim>\<open>_get_auth_token\<close> returns it.
\<close>

theorem auth_failure_is_terminal:
  assumes "acquire_token_for_client w (application_id st) (application_secret st)
             (''https://login.microsoftonline.com/'' @ tenant_id st)
             [''https://management.core.windows.net//.default''] = Inr token"
  shows "(''access_token'' \<notin> fst ` set token \<longrightarrow>
          dict_get token ''error'' = Inr err \<longrightarrow>
          dict_get token ''error_description'' = Inr descr \<longrightarrow>
            main st w flag =
              ([token_request st,
                LogWarning ''Failed to get auth token''
                  [(''error'', JStr err), (''error_description'', JStr descr)] None],
               Inl (SystemExit 1)) \<and>
            exit_status (main st w flag) = 1) \<and>
         (dict_get token ''access_token'' = Inr t \<longrightarrow>
            get_auth_token st w = ([token_request st], Inr t))"
proof (intro conjI impI)
  assume "''access_token'' \<notin> fst ` set token" "dict_get token ''error'' = Inr err"
    "dict_get token ''error_description'' = Inr descr"
  from get_auth_token_rejected [OF assms this]
  show m: "main st w flag =
             ([token_request st,
               LogWarning ''Failed to get auth token''
                 [(''error'', JStr err), (''error_description'', JStr descr)] None],
              Inl (SystemExit 1))"
    by (rule main_auth_fails)
  show "exit_status (main st w flag) = 1" unfolding m by simp
next
  assume "dict_get token ''access_token'' = Inr t"
  with assms show "get_auth_token st w = ([token_request st], Inr t)"
    by (rule get_auth_token_ok)
qed

theorem auth_failure_is_terminal_witness:
  "main (scenario_settings 10)
     (scenario_world token_rejected (Inr landing) (Some anchor) (Inr download)
        (Inr (service_tags vendor_prefixes))
        (Inr resource_response) (Inr resource_response)) False
   = ([token_request (scenario_settings 10),
       LogWarning ''Failed to get auth token''
         [(''error'', JStr ''invalid_client''), (''error_description'', JStr ''bad secret'')] None],
      Inl (SystemExit 1)) \<and>
   exit_status
     (main (scenario_settings 10)
        (scenario_world token_rejected (Inr landing) (Some anchor) (Inr download)
        (Inr (service_tags vendor_prefixes))
           (Inr resource_response) (Inr resource_response)) False) = 1 \<and>
   get_auth_token (scenario_settings 10)
     (world_ok (service_tags vendor_prefixes) (Inr resource_response) (Inr resource_response))
   = ([token_request (scenario_settings 10)], Inr ''abc'')"
proof -
  let ?st = "scenario_settings 10"
  let ?bad = "scenario_world token_rejected (Inr landing) (Some anchor) (Inr download)
                (Inr (service_tags vendor_prefixes))
                (Inr resource_response) (Inr resource_response)"
  let ?good = "world_ok (service_tags vendor_prefixes) (Inr resource_response) (Inr resource_response)"
  have bad: "acquire_token_for_client ?bad (application_id ?st) (application_secret ?st)
               (''https://login.microsoftonline.com/'' @ tenant_id ?st)
               [''https://management.core.windows.net//.default''] = Inr token_rejected"
    by (simp add: scenario_world_def)
  have good: "acquire_token_for_client ?good (application_id ?st) (application_secret ?st)
               (''https://login.microsoftonline.com/'' @ tenant_id ?st)
               [''https://management.core.windows.net//.default''] = Inr token_ok"
    by (simp add: world_ok_def scenario_world_def)
  have r1: "''access_token'' \<notin> fst ` set token_rejected"
    and r2: "dict_get token_rejected ''error'' = Inr ''invalid_client''"
    and r3: "dict_get token_rejected ''error_description'' = Inr ''bad secret''"
    and g: "dict_get token_ok ''access_token'' = Inr ''abc''"
    by (simp_all add: token_rejected_def token_ok_def dict_get_def)
  from auth_failure_is_terminal [OF bad, of "''invalid_client''" "''bad secret''" False] r1 r2 r3
       auth_failure_is_terminal [OF good, of _ _ _ "''abc''"] g
  show ?thesis by simp
qed



text \<open>
  C8: whenever classification returns, the v4 bucket is the input list filtered to the
  entries parsed as IPv4 networks and the v6 bucket the input list filtered to those
  parsed as IPv6 networks; so each bucket is a subsequence of the input, in the input's
  order, not sorted.
\<close>

theorem buckets_keep_source_order:
  "filter_ip_versions networks = (es, Inr vers) \<Longrightarrow>
     ipv4 vers = filter (\<lambda>n. ip_network n = Inr IPv4Network) networks \<and>
     ipv6 vers = filter (\<lambda>n. ip_network n = Inr IPv6Network) networks \<and>
     subseq (ipv4 vers) networks \<and> subseq (ipv6 vers) networks"
proof -
  assume "filter_ip_versions networks = (es, Inr vers)"
  then have "filter_loop networks [] [] = ([], Inr (ipv4 vers, ipv6 vers))"
    by (simp add: filter_ip_versions_Inr)
  from filter_loop_buckets [OF this]
  have b: "ipv4 vers = filter (\<lambda>n. ip_network n = Inr IPv4Network) networks"
          "ipv6 vers = filter (\<lambda>n. ip_network n = Inr IPv6Network) networks"
    by simp_all
  have "subseq (ipv4 vers) networks" "subseq (ipv6 vers) networks"
    unfolding b by (rule subseq_filter_left)+
  with b show ?thesis by simp
qed

theorem buckets_keep_source_order_witness:
  "filter_ip_versions
     [JStr ''2001:db8::/32'', JStr ''192.168.0.0/16'', JStr ''10.0.0.0/8'', JStr ''::/0'']
   = ([LogWarning ''Successfully Split IPv4 and IPv6 Addresses''
         [(''ipv4'', JArr [JStr ''192.168.0.0/16'', JStr ''10.0.0.0/8'']),
          (''ipv6'', JArr [JStr ''2001:db8::/32'', JStr ''::/0''])] None],
      Inr \<lparr>ipv4 = [JStr ''192.168.0.0/16'', JStr ''10.0.0.0/8''],
           ipv6 = [JStr ''2001:db8::/32'', JStr ''::/0'']\<rparr>) \<and>
   subseq [JStr ''192.168.0.0/16'', JStr ''10.0.0.0/8'']
     [JStr ''2001:db8::/32'', JStr ''192.168.0.0/16'', JStr ''10.0.0.0/8'', JStr ''::/0''] \<and>
   subseq [JStr ''2001:db8::/32'', JStr ''::/0'']
     [JStr ''2001:db8::/32'', JStr ''192.168.0.0/16'', JStr ''10.0.0.0/8'', JStr ''::/0'']"
proof -
  have run:
    "filter_ip_versions
       [JStr ''2001:db8::/32'', JStr ''192.168.0.0/16'', JStr ''10.0.0.0/8'', JStr ''::/0'']
     = ([LogWarning ''Successfully Split IPv4 and IPv6 Addresses''
           [(''ipv4'', JArr [JStr ''192.168.0.0/16'', JStr ''10.0.0.0/8'']),
            (''ipv6'', JArr [JStr ''2001:db8::/32'', JStr ''::/0''])] None],
        Inr \<lparr>ipv4 = [JStr ''192.168.0.0/16'', JStr ''10.0.0.0/8''],
             ipv6 = [JStr ''2001:db8::/32'', JStr ''::/0'']\<rparr>)"
    by code_simp
  from buckets_keep_source_order [OF run] run show ?thesis by simp
qed

text \<open>
  C9: take two runs with the same settings and token whose fetched lists classify into
  the same v4 bucket, and let the resource API answer both alike. Then whatever the v6
  buckets hold, the threshold check decides alike, the PUTs issued (and so the address
  list submitted) are the same, so are all requests to the IP group, the outcome of
  \<^verbatim>\<open>main\<close> and the exit status.
\<close>

theorem v6_bucket_has_no_influence:
  assumes auth1: "get_auth_token st w1 = (a1, Inr tok)"
    and auth2: "get_auth_token st w2 = (a2, Inr tok)"
    and fetch1: "get_frontdoor_ips w1 = (f1, Inr ips1)"
    and fetch2: "get_frontdoor_ips w2 = (f2, Inr ips2)"
    and classify1: "filter_ip_versions ips1 = (c1, Inr vers1)"
    and classify2: "filter_ip_versions ips2 = (c2, Inr vers2)"
    and same_v4: "ipv4 vers1 = ipv4 vers2"
    and same_get: "requests_get w1 (resource_url st) (api_headers tok)
                     = requests_get w2 (resource_url st) (api_headers tok)"
    and same_json: "\<And>resp. requests_get w2 (resource_url st) (api_headers tok) = Inr resp \<Longrightarrow>
                     json_loads w1 (content resp) = json_loads w2 (content resp)"
    and same_put: "requests_put w1 (resource_url st) (api_headers tok)
                     = requests_put w2 (resource_url st) (api_headers tok)"
  shows
    "(int (length (ipv4 vers1)) > minimum_acceptable_v4_networks st)
       = (int (length (ipv4 vers2)) > minimum_acceptable_v4_networks st) \<and>
     filter is_put (fst (main st w1 flag)) = filter is_put (fst (main st w2 flag)) \<and>
     filter (is_resource_request st tok) (fst (main st w1 flag))
       = filter (is_resource_request st tok) (fst (main st w2 flag)) \<and>
     snd (main st w1 flag) = snd (main st w2 flag) \<and>
     exit_status (main st w1 flag) = exit_status (main st w2 flag)"
proof -
  define rest where
    "rest = (if int (length (ipv4 vers2)) > minimum_acceptable_v4_networks st
             then update_azure_ip_group st w2 tok (ipv4 vers2) flag
             else ([threshold_log st], Inl (SystemExit 1)))"
  have m2: "main st w2 flag = after (a2 @ f2 @ c2) rest"
    unfolding rest_def by (rule main_validates [OF auth2 fetch2 classify2])
  have m1: "main st w1 flag = after (a1 @ f1 @ c1) rest"
    unfolding rest_def main_validates [OF auth1 fetch1 classify1] same_v4
    by (simp add: update_same_answers [OF same_get same_json same_put])
  have p1: "filter is_put (a1 @ f1 @ c1) = []" and p2: "filter is_put (a2 @ f2 @ c2) = []"
    using no_put_before_update [OF auth1 fetch1 classify1]
          no_put_before_update [OF auth2 fetch2 classify2] by simp_all
  have r1: "filter (is_resource_request st tok) (a1 @ f1 @ c1) = []"
    and r2: "filter (is_resource_request st tok) (a2 @ f2 @ c2) = []"
    using no_resource_request_before_update [OF auth1 fetch1 classify1, of tok]
          no_resource_request_before_update [OF auth2 fetch2 classify2, of tok]
    by (simp_all add: list_ex_iff filter_empty_conv)
  have "filter is_put (fst (main st w1 flag)) = filter is_put (fst (main st w2 flag))"
    using p1 p2 unfolding m1 m2 by simp
  moreover have "filter (is_resource_request st tok) (fst (main st w1 flag))
       = filter (is_resource_request st tok) (fst (main st w2 flag))"
    using r1 r2 unfolding m1 m2 by simp
  moreover have "snd (main st w1 flag) = snd (main st w2 flag)"
    unfolding m1 m2 by simp
  moreover have "exit_status (main st w1 flag) = exit_status (main st w2 flag)"
    unfolding m1 m2 by simp
  ultimately show ?thesis using same_v4 by simp
qed

theorem v6_bucket_has_no_influence_witness:
  "vendor_v6 \<noteq> [JStr ''2603:1030:b::/48'', JStr ''::/0''] \<and>
   (int (length vendor_v4) > minimum_acceptable_v4_networks (scenario_settings 10))
     = (int (length vendor_v4) > minimum_acceptable_v4_networks (scenario_settings 10)) \<and>
   filter is_put
     (fst (main (scenario_settings 10)
             (world_ok (service_tags vendor_prefixes) (Inr resource_response) (Inr resource_response))
             False))
     = filter is_put
         (fst (main (scenario_settings 10)
                 (world_ok (service_tags vendor_prefixes_other_v6) (Inr resource_response)
                    (Inr resource_response))
                 False)) \<and>
   filter (is_resource_request (scenario_settings 10) ''abc'')
     (fst (main (scenario_settings 10)
             (world_ok (service_tags vendor_prefixes) (Inr resource_response) (Inr resource_response))
             False))
     = filter (is_resource_request (scenario_settings 10) ''abc'')
         (fst (main (scenario_settings 10)
                 (world_ok (service_tags vendor_prefixes_other_v6) (Inr resource_response)
                    (Inr resource_response))
                 False)) \<and>
   snd (main (scenario_settings 10)
          (world_ok (service_tags vendor_prefixes) (Inr resource_response) (Inr resource_response))
          False)
     = snd (main (scenario_settings 10)
              (world_ok (service_tags vendor_prefixes_other_v6) (Inr resource_response)
                 (Inr resource_response))
              False) \<and>
   exit_status
     (main (scenario_settings 10)
        (world_ok (service_tags vendor_prefixes) (Inr resource_response) (Inr resource_response))
        False)
     = exit_status
         (main (scenario_settings 10)
            (world_ok (service_tags vendor_prefixes_other_v6) (Inr resource_response)
               (Inr resource_response))
            False)"
proof -
  let ?st = "scenario_settings 10"
  let ?w1 = "world_ok (service_tags vendor_prefixes) (Inr resource_response) (Inr resource_response)"
  let ?w2 = "world_ok (service_tags vendor_prefixes_other_v6) (Inr resource_response)
               (Inr resource_response)"
  have differ: "vendor_v6 \<noteq> [JStr ''2603:1030:b::/48'', JStr ''::/0'']"
    by (simp add: vendor_v6_def)
  have same_v4: "ipv4 \<lparr>ipv4 = vendor_v4, ipv6 = vendor_v6\<rparr>
                   = ipv4 \<lparr>ipv4 = vendor_v4, ipv6 = [JStr ''2603:1030:b::/48'', JStr ''::/0'']\<rparr>"
    by simp
  have same_get: "requests_get ?w1 (resource_url ?st) (api_headers ''abc'')
                    = requests_get ?w2 (resource_url ?st) (api_headers ''abc'')"
    by (simp add: world_ok_def scenario_world_def)
  have same_json: "json_loads ?w1 (content resp) = json_loads ?w2 (content resp)"
    if "requests_get ?w2 (resource_url ?st) (api_headers ''abc'') = Inr resp" for resp
  proof -
    from that have "resp = resource_response"
      by (simp add: scenario_read)
    then show ?thesis
      by (simp add: scenario_read)
  qed
  have same_put: "requests_put ?w1 (resource_url ?st) (api_headers ''abc'')
                    = requests_put ?w2 (resource_url ?st) (api_headers ''abc'')"
    by (simp add: world_ok_def scenario_world_def)
  from v6_bucket_has_no_influence
         [OF scenario_auth scenario_auth scenario_fetch scenario_fetch
             scenario_classify scenario_classify_other same_v4 same_get same_json same_put,
          of False]
       differ
  show ?thesis by simp
qed

text \<open>
  C10: the branch that logs \<^verbatim>\<open>Unknown Network Detected\<close> is never taken, because
  \<^verbatim>\<open>ip_network\<close> returns an object of class \<^verbatim>\<open>IPv4Network\<close> or
  \<^verbatim>\<open>IPv6Network\<close> or raises. On no input does the trace of classification hold that
  warning, and when classification returns, every input element stands in the v4 or in
  the v6 bucket and the two buckets together are as long as the input: nothing was
  dropped.
\<close>

theorem unknown_network_branch_unreachable:
  "\<not> list_ex is_unknown_network_warning (fst (filter_ip_versions networks)) \<and>
   (filter_ip_versions networks = (es, Inr vers) \<longrightarrow>
      (\<forall>n \<in> set networks. n \<in> set (ipv4 vers) \<or> n \<in> set (ipv6 vers)) \<and>
      length (ipv4 vers) + length (ipv6 vers) = length networks)"
proof (intro conjI impI)
  obtain es0 r where l: "filter_loop networks [] [] = (es0, r)"
    by (cases "filter_loop networks [] []")
  with filter_loop_no_events [of networks "[]" "[]"] have "es0 = []" by simp
  with l show "\<not> list_ex is_unknown_network_warning (fst (filter_ip_versions networks))"
    by (cases r) (auto simp: filter_ip_versions_def io_defs split: prod.splits)
next
  assume a: "filter_ip_versions networks = (es, Inr vers)"
  then have l: "filter_loop networks [] [] = ([], Inr (ipv4 vers, ipv6 vers))"
    by (simp add: filter_ip_versions_Inr)
  from filter_loop_buckets [OF l]
  have b: "ipv4 vers = filter (\<lambda>n. ip_network n = Inr IPv4Network) networks"
          "ipv6 vers = filter (\<lambda>n. ip_network n = Inr IPv6Network) networks"
    by simp_all
  have parsed: "ip_network n = Inr IPv4Network \<or> ip_network n = Inr IPv6Network"
    if "n \<in> set networks" for n
  proof (cases "ip_network n")
    case (Inl e)
    then have "ip_network n = Inl ValueError" using ip_network_raises by blast
    from filter_loop_raises [OF this that] l show ?thesis by simp
  next
    case (Inr c)
    with ip_network_class [OF Inr] show ?thesis by auto
  qed
  then show "\<forall>n \<in> set networks. n \<in> set (ipv4 vers) \<or> n \<in> set (ipv6 vers)"
    unfolding b by auto
  have "filter (\<lambda>n. ip_network n = Inr IPv6Network) networks
          = filter (\<lambda>n. \<not> ip_network n = Inr IPv4Network) networks"
    using parsed by (intro filter_cong) auto
  then show "length (ipv4 vers) + length (ipv6 vers) = length networks"
    unfolding b by (simp add: sum_length_filter_compl)
qed

theorem unknown_network_branch_unreachable_witness:
  "\<not> list_ex is_unknown_network_warning
       (fst (filter_ip_versions [JStr ''10.0.0.0/8'', JStr ''2001:db8::/32'', JInt 7])) \<and>
   filter_ip_versions [JStr ''10.0.0.0/8'', JStr ''2001:db8::/32'', JInt 7]
     = ([LogWarning ''Successfully Split IPv4 and IPv6 Addresses''
           [(''ipv4'', JArr [JStr ''10.0.0.0/8'', JInt 7]),
            (''ipv6'', JArr [JStr ''2001:db8::/32''])] None],
        Inr \<lparr>ipv4 = [JStr ''10.0.0.0/8'', JInt 7], ipv6 = [JStr ''2001:db8::/32'']\<rparr>) \<and>
   length [JStr ''10.0.0.0/8'', JInt 7] + length [JStr ''2001:db8::/32''] = (3::nat)"
proof -
  have run:
    "filter_ip_versions [JStr ''10.0.0.0/8'', JStr ''2001:db8::/32'', JInt 7]
       = ([LogWarning ''Successfully Split IPv4 and IPv6 Addresses''
             [(''ipv4'', JArr [JStr ''10.0.0.0/8'', JInt 7]),
              (''ipv6'', JArr [JStr ''2001:db8::/32''])] None],
          Inr \<lparr>ipv4 = [JStr ''10.0.0.0/8'', JInt 7], ipv6 = [JStr ''2001:db8::/32'']\<rparr>)"
    by code_simp
  from unknown_network_branch_unreachable
         [of "[JStr ''10.0.0.0/8'', JStr ''2001:db8::/32'', JInt 7]"
             "[LogWarning ''Successfully Split IPv4 and IPv6 Addresses''
                 [(''ipv4'', JArr [JStr ''10.0.0.0/8'', JInt 7]),
                  (''ipv6'', JArr [JStr ''2001:db8::/32''])] None]"
             "\<lparr>ipv4 = [JStr ''10.0.0.0/8'', JInt 7], ipv6 = [JStr ''2001:db8::/32'']\<rparr>"]
       run
  show ?thesis by simp
qed

end
